theory Spec2Isabelle
  imports Main
begin

section \<open>JavaScript values\<close>

text \<open>
  The handlers work on JSON request bodies and on schemaless store documents, so their
  data is modelled by one type of JavaScript values. Numbers are restricted to the
  integers that JavaScript prints with all their digits, and \<open>NaN\<close> (the only
  non-integer the code itself produces, through \<^verbatim>\<open>parseInt\<close>); fractions and infinities
  are outside the model. An object is the list of its own properties, each key once.
\<close>

datatype jsval =
    JUndefined
  | JNull
  | JBool bool
  | JNum int
  | JNaN
  | JStr string
  | JArr "jsval list"
  | JObj "(string \<times> jsval) list"

text \<open>Truthiness, as tested by \<^verbatim>\<open>!x\<close>, \<^verbatim>\<open>x || y\<close>, \<^verbatim>\<open>x ? a : b\<close> and \<^verbatim>\<open>if (x)\<close>.\<close>

fun truthy :: "jsval \<Rightarrow> bool" where
  "truthy JUndefined = False"
| "truthy JNull = False"
| "truthy (JBool b) = b"
| "truthy (JNum n) = (n \<noteq> 0)"
| "truthy JNaN = False"
| "truthy (JStr s) = (s \<noteq> [])"
| "truthy (JArr xs) = True"
| "truthy (JObj kvs) = True"

text \<open>
  Strict equality \<^verbatim>\<open>===\<close>. \<open>NaN\<close> equals nothing, and arrays and objects are
  compared by reference: every comparison in the handlers is between values read from two
  different documents or messages, so two arrays or objects are never the same reference.
\<close>

fun strict_eq :: "jsval \<Rightarrow> jsval \<Rightarrow> bool" where
  "strict_eq JUndefined JUndefined = True"
| "strict_eq JNull JNull = True"
| "strict_eq (JBool a) (JBool b) = (a = b)"
| "strict_eq (JNum a) (JNum b) = (a = b)"
| "strict_eq (JStr a) (JStr b) = (a = b)"
| "strict_eq x y = False"

text \<open>The operator \<^verbatim>\<open>x || y\<close>.\<close>

definition js_or :: "jsval \<Rightarrow> jsval \<Rightarrow> jsval" where
  "js_or x y = (if truthy x then x else y)"

section \<open>Documents\<close>

text \<open>
  A stored answer document of \<^verbatim>\<open>candidates/{registrationNumber}/answers/{questionId}\<close>.
  A field the document does not have reads as \<open>JUndefined\<close>.
\<close>

record answer_doc =
  examName :: jsval
  timestamp :: jsval
  order :: jsval
  answer :: jsval
  skipped :: jsval
  submittedVia :: jsval

text \<open>A question document of \<^verbatim>\<open>Exams/{exam}/Questions\<close>, with the fields scoring reads.\<close>

record question =
  q_id :: string
  q_order :: jsval
  correctAnswer :: jsval

section \<open>Scoring loop of GET /api/today-exam-results\<close>

text \<open>\<^verbatim>\<open>answers.find(a => a.order === question.order)\<close>: the first stored answer with the
  question's order value.\<close>

definition find_answer :: "answer_doc list \<Rightarrow> question \<Rightarrow> answer_doc option" where
  "find_answer answers q = List.find (\<lambda>a. strict_eq (order a) (q_order q)) answers"

text \<open>
  One round of \<^verbatim>\<open>examQuestions.forEach\<close> on the two counters
  \<open>(correctAnswers, skippedQuestions)\<close>.
\<close>

definition score_question :: "answer_doc list \<Rightarrow> nat \<times> nat \<Rightarrow> question \<Rightarrow> nat \<times> nat" where
  "score_question answers cs q =
     (case find_answer answers q of
        None \<Rightarrow> (fst cs, snd cs + 1)
      | Some a \<Rightarrow>
          if truthy (skipped a) then (fst cs, snd cs + 1)
          else if strict_eq (answer a) (correctAnswer q) then (fst cs + 1, snd cs)
          else cs)"

definition score_loop :: "question list \<Rightarrow> answer_doc list \<Rightarrow> nat \<times> nat" where
  "score_loop examQuestions answers = foldl (score_question answers) (0, 0) examQuestions"

text \<open>The counts of \<^verbatim>\<open>resultData\<close>; the difference is taken in the integers, as written.\<close>

record counts =
  totalQuestions :: nat
  correctAnswers :: nat
  skippedQuestions :: nat
  wrongAnswers :: int

definition score :: "question list \<Rightarrow> answer_doc list \<Rightarrow> counts" where
  "score examQuestions answers =
     (let cs = score_loop examQuestions answers in
      \<lparr> totalQuestions = length examQuestions,
        correctAnswers = fst cs,
        skippedQuestions = snd cs,
        wrongAnswers = int (length examQuestions) - (int (fst cs) + int (snd cs)) \<rparr>)"

section \<open>Conversions of the language\<close>

text \<open>
  \<^verbatim>\<open>String(x)\<close>, which \<^verbatim>\<open>parseInt\<close> and string concatenation apply to their operand.
\<close>

definition digit_char :: "nat \<Rightarrow> char" where
  "digit_char d = ''0123456789'' ! d"

fun dec_digits :: "nat \<Rightarrow> string" where
  "dec_digits n =
     (if n < 10 then [digit_char n] else dec_digits (n div 10) @ [digit_char (n mod 10)])"

definition int_to_string :: "int \<Rightarrow> string" where
  "int_to_string i = (if i < 0 then CHR ''-'' # dec_digits (nat (- i)) else dec_digits (nat i))"

fun join_comma :: "string list \<Rightarrow> string" where
  "join_comma [] = []"
| "join_comma [s] = s"
| "join_comma (s # t # ss) = s @ '','' @ join_comma (t # ss)"

fun js_to_string :: "jsval \<Rightarrow> string" where
  "js_to_string JUndefined = ''undefined''"
| "js_to_string JNull = ''null''"
| "js_to_string (JBool b) = (if b then ''true'' else ''false'')"
| "js_to_string (JNum n) = int_to_string n"
| "js_to_string JNaN = ''NaN''"
| "js_to_string (JStr s) = s"
| "js_to_string (JArr xs) =
     join_comma (map (\<lambda>x. if x = JUndefined \<or> x = JNull then [] else js_to_string x) xs)"
| "js_to_string (JObj kvs) = ''[object Object]''"

text \<open>
  \<^verbatim>\<open>parseInt(x)\<close> with no radix: the operand as a string, leading white space dropped
  (the ASCII white space; the other Unicode spaces are not modelled), an optional sign, an
  optional \<^verbatim>\<open>0x\<close> that selects base 16, then the longest run of digits; \<open>NaN\<close> when
  there is no digit.
\<close>

definition is_space :: "char \<Rightarrow> bool" where
  "is_space c = (c \<in> set [CHR '' '', CHR 0x09, CHR 0x0A, CHR 0x0B, CHR 0x0C, CHR 0x0D])"

definition digit_value :: "nat \<Rightarrow> char \<Rightarrow> nat option" where
  "digit_value radix c =
     (let n = (of_char c :: nat);
          v = (if 48 \<le> n \<and> n \<le> 57 then Some (n - 48)
               else if 97 \<le> n \<and> n \<le> 122 then Some (n - 87)
               else if 65 \<le> n \<and> n \<le> 90 then Some (n - 55)
               else None)
      in case v of None \<Rightarrow> None | Some d \<Rightarrow> if d < radix then Some d else None)"

definition parseInt_string :: "string \<Rightarrow> jsval" where
  "parseInt_string s =
     (let s1 = dropWhile is_space s;
          neg = (take 1 s1 = ''-'');
          s2 = (if take 1 s1 = ''-'' \<or> take 1 s1 = ''+'' then drop 1 s1 else s1);
          hex = (take 2 s2 = ''0x'' \<or> take 2 s2 = ''0X'');
          radix = (if hex then 16 else 10);
          s3 = (if hex then drop 2 s2 else s2);
          ds = takeWhile (\<lambda>c. digit_value radix c \<noteq> None) s3;
          n = foldl (\<lambda>a c. case digit_value radix c of None \<Rightarrow> a | Some d \<Rightarrow> a * radix + d) 0 ds
      in if ds = [] then JNaN else JNum (if neg then - int n else int n))"

definition parseInt :: "jsval \<Rightarrow> jsval" where
  "parseInt v = parseInt_string (js_to_string v)"

text \<open>
  Reading a property. On \<^verbatim>\<open>null\<close> and \<^verbatim>\<open>undefined\<close> a property access or a
  destructuring throws a TypeError, which \<open>nullish\<close> guards; every other value answers,
  with \<^verbatim>\<open>undefined\<close> for a property it does not have.
\<close>

definition nullish :: "jsval \<Rightarrow> bool" where
  "nullish v = (v = JUndefined \<or> v = JNull)"

fun js_prop :: "jsval \<Rightarrow> string \<Rightarrow> jsval" where
  "js_prop (JObj kvs) k = (case map_of kvs k of None \<Rightarrow> JUndefined | Some v \<Rightarrow> v)"
| "js_prop v k = JUndefined"

section \<open>Exceptions\<close>

text \<open>
  What a handler's \<^verbatim>\<open>try\<close> block can throw: a TypeError of the language, or an error
  of the store's client library (an argument it rejects, a failed commit).
\<close>

datatype error = TypeError | StoreError

definition bindE :: "error + 'a \<Rightarrow> ('a \<Rightarrow> error + 'b) \<Rightarrow> error + 'b" where
  "bindE m f = (case m of Inl e \<Rightarrow> Inl e | Inr x \<Rightarrow> f x)"

text \<open>\<^verbatim>\<open>forEach\<close> with a callback that may throw: the first exception ends the loop.\<close>

fun mapE :: "('a \<Rightarrow> error + 'b) \<Rightarrow> 'a list \<Rightarrow> error + 'b list" where
  "mapE f [] = Inr []"
| "mapE f (x # xs) = bindE (f x) (\<lambda>y. bindE (mapE f xs) (\<lambda>ys. Inr (y # ys)))"

text \<open>\<^verbatim>\<open>filter\<close> with a predicate that may throw.\<close>

fun filterE :: "('a \<Rightarrow> error + bool) \<Rightarrow> 'a list \<Rightarrow> error + 'a list" where
  "filterE p [] = Inr []"
| "filterE p (x # xs) =
     bindE (p x) (\<lambda>keep. bindE (filterE p xs) (\<lambda>ys. Inr (if keep then x # ys else ys)))"

section \<open>The document store\<close>

record candidate_doc =
  exam :: jsval
  candidateName :: jsval
  phone :: jsval
  submitted :: jsval
  used :: jsval
  examCompletedAt :: jsval

text \<open>
  The two collections the submission paths touch: \<^verbatim>\<open>candidates/{id}\<close> and
  \<^verbatim>\<open>candidates/{id}/answers/{questionId}\<close>.
\<close>

record firestore =
  cand_docs :: "string \<rightharpoonup> candidate_doc"
  ans_docs :: "string \<times> string \<rightharpoonup> answer_doc"

text \<open>
  The environment of one request: the clock read by \<^verbatim>\<open>new Date().toISOString()\<close> (one
  reading for the whole request), and whether the store accepts and carries out the write
  it is sent. The latter stands for everything that can fail in the store beyond the checks
  written out below: the network, and the values or document paths its client library
  refuses.
\<close>

record env =
  now :: string
  commit_ok :: bool

text \<open>The operations a write batch collects.\<close>

datatype write_op =
    SetAnswer string string answer_doc
  | UpdateSubmitted string jsval

text \<open>
  \<^verbatim>\<open>set\<close> overwrites the document at its key; \<^verbatim>\<open>update\<close> merges fields into a document
  that must exist.
\<close>

fun apply_write :: "write_op \<Rightarrow> firestore \<Rightarrow> firestore option" where
  "apply_write (SetAnswer r q d) fs = Some (fs\<lparr>ans_docs := (ans_docs fs)((r, q) \<mapsto> d)\<rparr>)"
| "apply_write (UpdateSubmitted c t) fs =
     (case cand_docs fs c of
        None \<Rightarrow> None
      | Some cd \<Rightarrow>
          Some (fs\<lparr>cand_docs := (cand_docs fs)(c \<mapsto> cd\<lparr>submitted := JBool True,
                                                      examCompletedAt := t\<rparr>)\<rparr>))"

fun apply_writes :: "write_op list \<Rightarrow> firestore \<Rightarrow> firestore option" where
  "apply_writes [] fs = Some fs"
| "apply_writes (w # ws) fs =
     (case apply_write w fs of None \<Rightarrow> None | Some fs' \<Rightarrow> apply_writes ws fs')"

text \<open>
  \<^verbatim>\<open>batch.commit()\<close>, and a single \<^verbatim>\<open>set\<close> as a batch of one: the store applies all
  the writes or rejects them all.
\<close>

definition commit :: "env \<Rightarrow> firestore \<Rightarrow> write_op list \<Rightarrow> error + firestore" where
  "commit e fs ws =
     (if commit_ok e
      then (case apply_writes ws fs of None \<Rightarrow> Inl StoreError | Some fs' \<Rightarrow> Inr fs')
      else Inl StoreError)"

text \<open>\<^verbatim>\<open>collection(..).doc(id)\<close>: the client library throws unless the id is a non-empty
  string.\<close>

definition doc_id :: "jsval \<Rightarrow> error + string" where
  "doc_id v = (case v of JStr s \<Rightarrow> if s = [] then Inl StoreError else Inr s | _ \<Rightarrow> Inl StoreError)"

text \<open>The client library refuses a document with an \<^verbatim>\<open>undefined\<close> field value.\<close>

definition storable :: "answer_doc \<Rightarrow> bool" where
  "storable d =
     (examName d \<noteq> JUndefined \<and> timestamp d \<noteq> JUndefined \<and> order d \<noteq> JUndefined
      \<and> answer d \<noteq> JUndefined \<and> skipped d \<noteq> JUndefined)"

definition stage_set :: "jsval \<Rightarrow> string \<Rightarrow> answer_doc \<Rightarrow> error + write_op" where
  "stage_set registrationNumber fq d =
     bindE (doc_id registrationNumber)
       (\<lambda>r. if storable d then Inr (SetAnswer r fq d) else Inl StoreError)"

section \<open>Responses\<close>

text \<open>
  Status code, the \<^verbatim>\<open>success\<close> flag, the \<^verbatim>\<open>error\<close> or \<^verbatim>\<open>message\<close> string, and the
  counts some responses carry. The \<^verbatim>\<open>details\<close> string of a failure is left out.
\<close>

record response =
  status :: nat
  success :: bool
  msg :: string
  savedCount :: "nat option"
  totalAnswers :: "nat option"
  skippedCount :: "nat option"

definition reply :: "nat \<Rightarrow> bool \<Rightarrow> string \<Rightarrow> response" where
  "reply code ok m =
     \<lparr> status = code, success = ok, msg = m,
       savedCount = None, totalAnswers = None, skippedCount = None \<rparr>"

section \<open>Question identifiers\<close>

text \<open>\<^verbatim>\<open>questionId.startsWith('Q') ? questionId : `Q${questionId}`\<close> on a string.\<close>

definition formatQuestionId :: "string \<Rightarrow> string" where
  "formatQuestionId s = (if take 1 s = ''Q'' then s else CHR ''Q'' # s)"

text \<open>On any value: \<^verbatim>\<open>startsWith\<close> exists on strings only, so every other value throws.\<close>

definition formattedQuestionId :: "jsval \<Rightarrow> error + string" where
  "formattedQuestionId questionId =
     (case questionId of JStr s \<Rightarrow> Inr (formatQuestionId s) | _ \<Rightarrow> Inl TypeError)"

section \<open>POST /api/save-answer\<close>

definition individual_doc :: "env \<Rightarrow> jsval \<Rightarrow> answer_doc" where
  "individual_doc e body =
     \<lparr> examName = js_prop body ''examName'',
       timestamp = JStr (now e),
       order = js_prop body ''order'',
       answer = parseInt (js_prop body ''answer''),
       skipped = js_or (js_prop body ''skipped'') (JBool False),
       submittedVia = JStr ''individual'' \<rparr>"

definition save_answer_try :: "env \<Rightarrow> firestore \<Rightarrow> jsval \<Rightarrow> error + response \<times> firestore" where
  "save_answer_try e fs body =
     (if nullish body then Inl TypeError
      else if \<not> truthy (js_prop body ''registrationNumber'') \<or> \<not> truthy (js_prop body ''questionId'')
              \<or> strict_eq (js_prop body ''answer'') JUndefined \<or> \<not> truthy (js_prop body ''examName'')
      then Inr (reply 400 False ''Missing required fields'', fs)
      else
        bindE (formattedQuestionId (js_prop body ''questionId'')) (\<lambda>fq.
        bindE (stage_set (js_prop body ''registrationNumber'') fq (individual_doc e body)) (\<lambda>w.
        bindE (commit e fs [w]) (\<lambda>fs'.
        Inr (reply 200 True ''Answer saved successfully'', fs')))))"

definition save_answer :: "env \<Rightarrow> firestore \<Rightarrow> jsval \<Rightarrow> response \<times> firestore" where
  "save_answer e fs body =
     (case save_answer_try e fs body of
        Inl err \<Rightarrow> (reply 500 False ''Failed to save answer'', fs)
      | Inr r \<Rightarrow> r)"

section \<open>POST /api/save-all-answers\<close>

definition bulk_doc :: "env \<Rightarrow> jsval \<Rightarrow> answer_doc" where
  "bulk_doc e a =
     (if truthy (js_prop a ''skipped'')
      then \<lparr> examName = js_prop a ''examName'', timestamp = JStr (now e), order = js_prop a ''order'',
             answer = JNull, skipped = JBool True, submittedVia = JUndefined \<rparr>
      else \<lparr> examName = js_prop a ''examName'', timestamp = JStr (now e), order = js_prop a ''order'',
             answer = parseInt (js_prop a ''answer''), skipped = JBool False,
             submittedVia = JUndefined \<rparr>)"

definition bulk_entry :: "env \<Rightarrow> jsval \<Rightarrow> error + write_op" where
  "bulk_entry e a =
     (if nullish a then Inl TypeError
      else bindE (formattedQuestionId (js_prop a ''questionId'')) (\<lambda>fq.
           stage_set (js_prop a ''registrationNumber'') fq (bulk_doc e a)))"

definition save_all_answers_try :: "env \<Rightarrow> firestore \<Rightarrow> jsval \<Rightarrow> error + response \<times> firestore" where
  "save_all_answers_try e fs body =
     (if nullish body then Inl TypeError
      else case js_prop body ''answers'' of
        JArr as \<Rightarrow>
          if length as = 0
          then Inr (reply 400 False ''Invalid answers format. Expected non-empty array.'', fs)
          else
            bindE (mapE (bulk_entry e) as) (\<lambda>ws.
            bindE (commit e fs ws) (\<lambda>fs'.
            Inr (reply 200 True ''All answers saved successfully'', fs')))
      | _ \<Rightarrow> Inr (reply 400 False ''Invalid answers format. Expected non-empty array.'', fs))"

definition save_all_answers :: "env \<Rightarrow> firestore \<Rightarrow> jsval \<Rightarrow> response \<times> firestore" where
  "save_all_answers e fs body =
     (case save_all_answers_try e fs body of
        Inl err \<Rightarrow> (reply 500 False ''Failed to save answers'', fs)
      | Inr r \<Rightarrow> r)"

section \<open>POST /api/timeout-save-answers\<close>

text \<open>The filter predicate; reading a property of a \<^verbatim>\<open>null\<close> element throws.\<close>

definition attempted :: "jsval \<Rightarrow> error + bool" where
  "attempted a =
     (if nullish a then Inl TypeError
      else Inr (\<not> truthy (js_prop a ''skipped'') \<and> \<not> strict_eq (js_prop a ''answer'') JNull
                \<and> \<not> strict_eq (js_prop a ''answer'') JUndefined))"

definition timeout_doc :: "env \<Rightarrow> jsval \<Rightarrow> answer_doc" where
  "timeout_doc e a =
     \<lparr> examName = js_prop a ''examName'',
       timestamp = JStr (now e),
       order = js_prop a ''order'',
       answer = parseInt (js_prop a ''answer''),
       skipped = JBool False,
       submittedVia = JStr ''timeout'' \<rparr>"

definition timeout_entry :: "env \<Rightarrow> jsval \<Rightarrow> error + write_op" where
  "timeout_entry e a =
     (if nullish a then Inl TypeError
      else bindE (formattedQuestionId (js_prop a ''questionId'')) (\<lambda>fq.
           stage_set (js_prop a ''registrationNumber'') fq (timeout_doc e a)))"

definition timeout_save_answers_try ::
  "env \<Rightarrow> firestore \<Rightarrow> jsval \<Rightarrow> error + response \<times> firestore" where
  "timeout_save_answers_try e fs body =
     (if nullish body then Inl TypeError
      else case js_prop body ''answers'' of
        JArr as \<Rightarrow>
          bindE (filterE attempted as) (\<lambda>attemptedAnswers.
            if length attemptedAnswers = 0
            then Inr (reply 200 True ''No attempted answers to save'', fs)
            else
              bindE (mapE (timeout_entry e) attemptedAnswers) (\<lambda>ws.
              bindE (commit e fs ws) (\<lambda>fs'.
              Inr ((reply 200 True ''Attempted answers saved successfully'')
                     \<lparr>savedCount := Some (length attemptedAnswers)\<rparr>, fs'))))
      | _ \<Rightarrow> Inr (reply 400 False ''Invalid answers format'', fs))"

definition timeout_save_answers :: "env \<Rightarrow> firestore \<Rightarrow> jsval \<Rightarrow> response \<times> firestore" where
  "timeout_save_answers e fs body =
     (case timeout_save_answers_try e fs body of
        Inl err \<Rightarrow> (reply 500 False ''Failed to save answers'', fs)
      | Inr r \<Rightarrow> r)"

section \<open>POST /api/complete-exam\<close>

definition completion_doc :: "env \<Rightarrow> jsval \<Rightarrow> jsval \<Rightarrow> answer_doc" where
  "completion_doc e examName_in a =
     \<lparr> examName = examName_in,
       timestamp = JStr (now e),
       order = js_prop a ''order'',
       answer = (if truthy (js_prop a ''skipped'') then JNull else parseInt (js_prop a ''answer'')),
       skipped = js_or (js_prop a ''skipped'') (JBool False),
       submittedVia = JStr ''completion'' \<rparr>"

definition completion_entry :: "env \<Rightarrow> string \<Rightarrow> jsval \<Rightarrow> jsval \<Rightarrow> error + write_op" where
  "completion_entry e candidate examName_in a =
     (if nullish a then Inl TypeError
      else bindE (formattedQuestionId (js_prop a ''questionId'')) (\<lambda>fq.
           if storable (completion_doc e examName_in a)
           then Inr (SetAnswer candidate fq (completion_doc e examName_in a))
           else Inl StoreError))"

definition complete_exam_try :: "env \<Rightarrow> firestore \<Rightarrow> jsval \<Rightarrow> error + response \<times> firestore" where
  "complete_exam_try e fs body =
     (if nullish body then Inl TypeError
      else if \<not> truthy (js_prop body ''candidateId'') \<or> \<not> truthy (js_prop body ''examName'')
      then Inr (reply 400 False ''Missing required fields or invalid answers format'', fs)
      else case js_prop body ''answers'' of
        JArr as \<Rightarrow>
          bindE (doc_id (js_prop body ''candidateId'')) (\<lambda>candidate.
          bindE (mapE (completion_entry e candidate (js_prop body ''examName'')) as) (\<lambda>ws.
          bindE (commit e fs (UpdateSubmitted candidate (JStr (now e)) # ws)) (\<lambda>fs'.
          Inr ((reply 200 True ''Exam completed and answers submitted successfully'')
                 \<lparr>totalAnswers := Some (length as),
                  skippedCount := Some (length (filter (\<lambda>a. truthy (js_prop a ''skipped'')) as))\<rparr>,
               fs'))))
      | _ \<Rightarrow> Inr (reply 400 False ''Missing required fields or invalid answers format'', fs))"

definition complete_exam :: "env \<Rightarrow> firestore \<Rightarrow> jsval \<Rightarrow> response \<times> firestore" where
  "complete_exam e fs body =
     (case complete_exam_try e fs body of
        Inl err \<Rightarrow> (reply 500 False ''Failed to complete exam'', fs)
      | Inr r \<Rightarrow> r)"

section \<open>GET /api/today-exam-results\<close>

text \<open>
  The handler as it stands in the candidate-facing server; the copy in \<^verbatim>\<open>Adminindex.js\<close>
  has the same lookup and the same scoring loop and adds the candidate's \<^verbatim>\<open>submitted\<close>
  and \<^verbatim>\<open>used\<close> flags to each result.
\<close>

text \<open>
  The \<^verbatim>\<open>dateTime\<close> map of an exam document, with the fields the exam date-time handler
  writes and this handler reads.
\<close>

record exam_schedule =
  date :: jsval
  startTime :: jsval
  endTime :: jsval
  marks :: jsval

text \<open>
  An exam document with its \<^verbatim>\<open>Questions\<close> subcollection as the query ordered by
  \<^verbatim>\<open>order\<close> returns it.
\<close>

record exam_doc =
  exam_id :: string
  dateTime :: "exam_schedule option"
  questions :: "question list"

text \<open>A candidate document with its \<^verbatim>\<open>answers\<close> subcollection as \<^verbatim>\<open>get()\<close> returns it.\<close>

record candidate_snap =
  cand_id :: string
  cand_doc :: candidate_doc
  cand_answers :: "answer_doc list"

text \<open>The reading side of the document store: the collections in the order the store
  returns them.\<close>

record exam_store =
  Exams :: "exam_doc list"
  candidates :: "candidate_snap list"

text \<open>
  The environment of the request: the date \<^verbatim>\<open>moment().format('YYYY-MM-DD')\<close>, the clock,
  and for each call to a store, counted from 0 in the order the handler makes them, whether
  it succeeds (the network can fail, and the client library refuses some paths).
\<close>

record results_env =
  today :: string
  clock :: string
  call_ok :: "nat \<Rightarrow> bool"

record resultData =
  registrationNumber :: string
  res_candidateName :: jsval
  res_phone :: jsval
  res_counts :: counts

text \<open>\<^verbatim>\<open>Results/{exam}/{candidate}\<close> of the realtime database: the result and its timestamp.\<close>

type_synonym results_db = "string \<times> string \<rightharpoonup> resultData \<times> string"

record results_response =
  r_status :: nat
  r_success :: bool
  r_msg :: string
  r_exam :: "(string \<times> exam_schedule) option"
  r_results :: "resultData list"

text \<open>\<^verbatim>\<open>examData.dateTime?.date === today\<close>.\<close>

definition scheduled_today :: "results_env \<Rightarrow> exam_doc \<Rightarrow> bool" where
  "scheduled_today e x =
     (case dateTime x of None \<Rightarrow> False | Some s \<Rightarrow> strict_eq (date s) (JStr (today e)))"

text \<open>\<^verbatim>\<open>.where('exam', '==', todayExam.id)\<close>.\<close>

definition registered_to :: "exam_doc \<Rightarrow> candidate_snap \<Rightarrow> bool" where
  "registered_to x c = strict_eq (exam (cand_doc c)) (JStr (exam_id x))"

definition result_of :: "question list \<Rightarrow> candidate_snap \<Rightarrow> resultData" where
  "result_of examQuestions c =
     \<lparr> registrationNumber = cand_id c,
       res_candidateName = candidateName (cand_doc c),
       res_phone = phone (cand_doc c),
       res_counts = score examQuestions (cand_answers c) \<rparr>"

text \<open>
  The loop over the candidates. Each round makes two calls: it reads the candidate's
  answers and sets the result in the realtime database, whose client library also refuses
  an \<^verbatim>\<open>undefined\<close> value. An exception leaves the loop with the results written so far in
  place.
\<close>

fun score_candidates ::
  "results_env \<Rightarrow> exam_doc \<Rightarrow> nat \<Rightarrow> candidate_snap list \<Rightarrow> resultData list \<Rightarrow> results_db
     \<Rightarrow> (error + resultData list) \<times> results_db" where
  "score_candidates e x n [] results db = (Inr results, db)"
| "score_candidates e x n (c # cs) results db =
     (if \<not> call_ok e n then (Inl StoreError, db)
      else if \<not> call_ok e (n + 1)
              \<or> res_candidateName (result_of (questions x) c) = JUndefined
              \<or> res_phone (result_of (questions x) c) = JUndefined
      then (Inl StoreError, db)
      else score_candidates e x (n + 2) cs (results @ [result_of (questions x) c])
             (db((exam_id x, cand_id c) \<mapsto> (result_of (questions x) c, clock e))))"

definition results_failure :: results_response where
  "results_failure =
     \<lparr> r_status = 500, r_success = False, r_msg = ''Failed to fetch exam results'',
       r_exam = None, r_results = [] \<rparr>"

definition results_not_found :: results_response where
  "results_not_found =
     \<lparr> r_status = 404, r_success = False, r_msg = ''No exam found for today'',
       r_exam = None, r_results = [] \<rparr>"

text \<open>
  The handler: call 0 reads the exams, call 1 the questions of the first exam scheduled
  today, call 2 the candidates registered to it; the loop starts at call 3.
\<close>

definition today_exam_results ::
  "results_env \<Rightarrow> exam_store \<Rightarrow> results_db \<Rightarrow> results_response \<times> results_db" where
  "today_exam_results e st db =
     (if \<not> call_ok e 0 then (results_failure, db)
      else case List.find (scheduled_today e) (Exams st) of
        None \<Rightarrow> (results_not_found, db)
      | Some x \<Rightarrow>
          if \<not> call_ok e 1 \<or> \<not> call_ok e 2 then (results_failure, db)
          else
            (case score_candidates e x 3 (filter (registered_to x) (candidates st)) [] db of
               (Inl err, db') \<Rightarrow> (results_failure, db')
             | (Inr results, db') \<Rightarrow>
                 (\<lparr> r_status = 200, r_success = True, r_msg = [],
                    r_exam = map_option (Pair (exam_id x)) (dateTime x), r_results = results \<rparr>, db')))"

section \<open>POST /api/verify-payment\<close>

text \<open>The fields of the gateway's payment and order objects that the handler compares.\<close>

record payment =
  order_id :: jsval
  amount :: jsval
  payment_status :: jsval

record gateway_order =
  order_amount :: jsval

text \<open>The calls the handler makes to the payment gateway, in the order it makes them.\<close>

datatype gateway_call = PaymentsFetch jsval | OrdersFetch jsval

text \<open>
  The environment of the request: the shared secret \<^verbatim>\<open>RAZORPAY_KEY_SECRET\<close> (absent when
  the variable is not set, in which case \<^verbatim>\<open>createHmac\<close> throws), the HMAC-SHA256 of a
  message under a key as a hexadecimal string, and the gateway's answers, \<open>None\<close> when the
  call throws.
\<close>

record payment_env =
  key_secret :: "string option"
  hmac_sha256_hex :: "string \<Rightarrow> string \<Rightarrow> string"
  payments_fetch :: "jsval \<Rightarrow> payment option"
  orders_fetch :: "jsval \<Rightarrow> gateway_order option"

text \<open>\<^verbatim>\<open>orderId + "|" + paymentId\<close>.\<close>

definition signed_text :: "jsval \<Rightarrow> jsval \<Rightarrow> string" where
  "signed_text orderId paymentId = js_to_string orderId @ ''|'' @ js_to_string paymentId"

text \<open>
  The checks on the fetched payment and order. The payment block of the success response
  is left out.
\<close>

definition check_payment :: "jsval \<Rightarrow> payment \<Rightarrow> gateway_order \<Rightarrow> response" where
  "check_payment orderId p ord =
     (if \<not> strict_eq (order_id p) orderId then reply 400 False ''Invalid payment details''
      else if \<not> strict_eq (amount p) (order_amount ord)
      then reply 400 False ''Invalid payment details''
      else if \<not> strict_eq (payment_status p) (JStr ''captured'')
      then reply 400 False ''Payment not captured''
      else reply 200 True [])"

definition verify_payment :: "payment_env \<Rightarrow> jsval \<Rightarrow> response \<times> gateway_call list" where
  "verify_payment pe body =
     (if nullish body then (reply 500 False ''Payment verification failed'', [])
      else if \<not> truthy (js_prop body ''orderId'') \<or> \<not> truthy (js_prop body ''paymentId'')
              \<or> \<not> truthy (js_prop body ''signature'')
      then (reply 400 False ''Missing required parameters'', [])
      else case key_secret pe of
        None \<Rightarrow> (reply 500 False ''Signature generation failed'', [])
      | Some k \<Rightarrow>
          if \<not> strict_eq
                 (JStr (hmac_sha256_hex pe k
                          (signed_text (js_prop body ''orderId'') (js_prop body ''paymentId''))))
                 (js_prop body ''signature'')
          then (reply 400 False ''Invalid payment signature'', [])
          else case payments_fetch pe (js_prop body ''paymentId'') of
            None \<Rightarrow> (reply 400 False ''Invalid payment details'',
                      [PaymentsFetch (js_prop body ''paymentId'')])
          | Some p \<Rightarrow>
              (case orders_fetch pe (js_prop body ''orderId'') of
                 None \<Rightarrow> (reply 400 False ''Invalid payment details'',
                           [PaymentsFetch (js_prop body ''paymentId''),
                            OrdersFetch (js_prop body ''orderId'')])
               | Some ord \<Rightarrow>
                   (check_payment (js_prop body ''orderId'') p ord,
                    [PaymentsFetch (js_prop body ''paymentId''),
                     OrdersFetch (js_prop body ''orderId'')])))"

section \<open>Properties of a score, in the words of the specification\<close>

text \<open>
  A question counts as skipped when no stored answer has its order value, or when the
  answer matched to it (the first one with that order value) is a skip. A field is tested
  for truthiness, as the source tests it; on a boolean that is being \<^verbatim>\<open>true\<close>.
\<close>

definition unanswered_or_skipped :: "answer_doc list \<Rightarrow> question \<Rightarrow> bool" where
  "unanswered_or_skipped answers q =
     ((\<forall>a \<in> set answers. \<not> strict_eq (order a) (q_order q)) \<or>
      (case find_answer answers q of None \<Rightarrow> False | Some a \<Rightarrow> truthy (skipped a)))"

text \<open>A question counts as correct when its matched answer is not a skip and carries the
  question's correct-answer index.\<close>

definition answered_correctly :: "answer_doc list \<Rightarrow> question \<Rightarrow> bool" where
  "answered_correctly answers q =
     (case find_answer answers q of
        None \<Rightarrow> False
      | Some a \<Rightarrow> \<not> truthy (skipped a) \<and> strict_eq (answer a) (correctAnswer q))"

section \<open>Auxiliary notions for the submission paths\<close>

text \<open>A write that sets an answer document, as opposed to one that updates a candidate.\<close>

fun sets_answer :: "write_op \<Rightarrow> bool" where
  "sets_answer (SetAnswer r k d) = True"
| "sets_answer (UpdateSubmitted c t) = False"

text \<open>The answer collection after a list of writes, one after the other.\<close>

fun put_answer :: "(string \<times> string \<rightharpoonup> answer_doc) \<Rightarrow> write_op \<Rightarrow> (string \<times> string \<rightharpoonup> answer_doc)" where
  "put_answer m (SetAnswer r k d) = m((r, k) \<mapsto> d)"
| "put_answer m (UpdateSubmitted c t) = m"

text \<open>
  An entry the timeout path keeps: not skipped, and with an answer that is neither
  \<^verbatim>\<open>null\<close> nor \<^verbatim>\<open>undefined\<close>.
\<close>

definition attempted_entry :: "jsval \<Rightarrow> bool" where
  "attempted_entry a =
     (\<not> truthy (js_prop a ''skipped'') \<and> js_prop a ''answer'' \<noteq> JNull
      \<and> js_prop a ''answer'' \<noteq> JUndefined)"

text \<open>
  An entry the store's client library accepts: the registration number is a non-empty
  string, the question identifier a string, and the exam name and the order are present.
\<close>

definition well_formed_entry :: "jsval \<Rightarrow> bool" where
  "well_formed_entry a =
     ((case js_prop a ''registrationNumber'' of JStr r \<Rightarrow> r \<noteq> [] | _ \<Rightarrow> False)
      \<and> (case js_prop a ''questionId'' of JStr q \<Rightarrow> True | _ \<Rightarrow> False)
      \<and> js_prop a ''examName'' \<noteq> JUndefined
      \<and> js_prop a ''order'' \<noteq> JUndefined)"

section \<open>The coercion rule, in the words of the specification\<close>

text \<open>
  For an input tuple with the given \<^verbatim>\<open>skipped\<close> and \<^verbatim>\<open>answer\<close> values: not skipped,
  the stored answer is the integer parse of the input answer and the stored flag is
  \<^verbatim>\<open>false\<close>; skipped, the stored answer is \<^verbatim>\<open>null\<close> and the stored flag is \<^verbatim>\<open>true\<close>.
\<close>

definition coerced :: "jsval \<Rightarrow> jsval \<Rightarrow> answer_doc \<Rightarrow> bool" where
  "coerced skipped_in answer_in d =
     (if truthy skipped_in then answer d = JNull \<and> skipped d = JBool True
      else answer d = parseInt answer_in \<and> skipped d = JBool False)"

text \<open>The document carries the time of the write and the given provenance tag.\<close>

definition stamped :: "env \<Rightarrow> string \<Rightarrow> answer_doc \<Rightarrow> bool" where
  "stamped e tag d = (timestamp d = JStr (now e) \<and> submittedVia d = JStr tag)"

section \<open>Example data\<close>

definition example_env :: env where
  "example_env = \<lparr> now = ''2025-03-01T10:00:00.000Z'', commit_ok = True \<rparr>"

text \<open>A store with one registered candidate and no answers yet.\<close>

definition example_store :: firestore where
  "example_store =
     \<lparr> cand_docs =
         [''REG1'' \<mapsto> \<lparr> exam = JStr ''Math101'', candidateName = JStr ''Asha'',
                        phone = JStr ''9000000000'', submitted = JBool False,
                        used = JBool True, examCompletedAt = JUndefined \<rparr>],
       ans_docs = Map.empty \<rparr>"

text \<open>An answer tuple as a client sends it.\<close>

definition example_tuple :: "string \<Rightarrow> jsval \<Rightarrow> jsval \<Rightarrow> (string \<times> jsval) list" where
  "example_tuple qid ans sk =
     [(''registrationNumber'', JStr ''REG1''), (''questionId'', JStr qid), (''answer'', ans),
      (''examName'', JStr ''Math101''), (''order'', JNum 1), (''skipped'', sk)]"

text \<open>
  Two exams, one candidate registered to each, and a day on which only the first exam is
  scheduled.
\<close>

definition example_exams :: exam_store where
  "example_exams =
     \<lparr> Exams =
         [\<lparr> exam_id = ''Math101'',
            dateTime = Some \<lparr> date = JStr ''2025-03-01'', startTime = JStr ''10:00 AM'',
                              endTime = JStr ''11:00 AM'', marks = JNum 100 \<rparr>,
            questions = [\<lparr> q_id = ''Q1'', q_order = JNum 1, correctAnswer = JNum 2 \<rparr>] \<rparr>,
          \<lparr> exam_id = ''Physics'',
            dateTime = Some \<lparr> date = JStr ''2025-04-01'', startTime = JStr ''10:00 AM'',
                              endTime = JStr ''11:00 AM'', marks = JNum 50 \<rparr>,
            questions = [] \<rparr>],
       candidates =
         [\<lparr> cand_id = ''REG1'',
            cand_doc = \<lparr> exam = JStr ''Math101'', candidateName = JStr ''Asha'',
                         phone = JStr ''9000000000'', submitted = JBool True,
                         used = JBool True, examCompletedAt = JStr ''2025-03-01T10:00:00.000Z'' \<rparr>,
            cand_answers =
              [\<lparr> examName = JStr ''Math101'', timestamp = JStr ''2025-03-01T10:00:00.000Z'',
                 order = JNum 1, answer = JNum 2, skipped = JBool False,
                 submittedVia = JStr ''completion'' \<rparr>] \<rparr>,
          \<lparr> cand_id = ''REG2'',
            cand_doc = \<lparr> exam = JStr ''Physics'', candidateName = JStr ''Ravi'',
                         phone = JStr ''9000000001'', submitted = JBool False,
                         used = JBool False, examCompletedAt = JUndefined \<rparr>,
            cand_answers = [] \<rparr>] \<rparr>"

definition example_day :: "string \<Rightarrow> results_env" where
  "example_day d = \<lparr> today = d, clock = ''2025-03-01T12:00:00.000Z'', call_ok = (\<lambda>n. True) \<rparr>"

text \<open>
  A gateway that knows one captured payment, with a stand-in for the digest (the key put
  in front of the message): the theorems hold for any digest function.
\<close>

definition example_gateway :: payment_env where
  "example_gateway =
     \<lparr> key_secret = Some ''secret'',
       hmac_sha256_hex = (\<lambda>k m. k @ m),
       payments_fetch = (\<lambda>i. if i = JStr ''pay_1''
          then Some \<lparr> order_id = JStr ''order_1'', amount = JNum 50000,
                       payment_status = JStr ''captured'' \<rparr> else None),
       orders_fetch = (\<lambda>i. if i = JStr ''order_1''
          then Some \<lparr> order_amount = JNum 50000 \<rparr> else None) \<rparr>"

definition example_payment :: "string \<Rightarrow> jsval" where
  "example_payment sig =
     JObj [(''orderId'', JStr ''order_1''), (''paymentId'', JStr ''pay_1''),
           (''signature'', JStr sig)]"

section \<open>Scoring\<close>

lemma find_answer_None:
  "find_answer answers q = None \<longleftrightarrow> (\<forall>a \<in> set answers. \<not> strict_eq (order a) (q_order q))"
  by (auto simp: find_answer_def find_None_iff)

lemma unanswered_or_skipped_iff:
  "unanswered_or_skipped answers q =
     (case find_answer answers q of None \<Rightarrow> True | Some a \<Rightarrow> truthy (skipped a))"
proof (cases "find_answer answers q")
  case None
  then show ?thesis
    using find_answer_None [of answers q] by (simp add: unanswered_or_skipped_def)
next
  case (Some a)
  then have "\<not> (\<forall>a \<in> set answers. \<not> strict_eq (order a) (q_order q))"
    using find_answer_None [of answers q] by simp
  with Some show ?thesis
    unfolding unanswered_or_skipped_def by auto
qed

lemma score_question_tally:
  "score_question answers cs q =
     (fst cs + (if answered_correctly answers q then 1 else 0),
      snd cs + (if unanswered_or_skipped answers q then 1 else 0))"
  by (simp add: score_question_def answered_correctly_def unanswered_or_skipped_iff
      split: option.splits)

lemma score_loop_from:
  "foldl (score_question answers) cs qs =
     (fst cs + length (filter (answered_correctly answers) qs),
      snd cs + length (filter (unanswered_or_skipped answers) qs))"
proof (induction qs arbitrary: cs)
  case Nil
  show ?case by simp
next
  case (Cons q qs)
  show ?case
    unfolding foldl_Cons Cons.IH by (simp add: score_question_tally)
qed

lemma score_loop_counts:
  "score_loop qs answers =
     (length (filter (answered_correctly answers) qs),
      length (filter (unanswered_or_skipped answers) qs))"
  by (simp add: score_loop_def score_loop_from)

lemma disjoint_tally: "answered_correctly answers q \<Longrightarrow> \<not> unanswered_or_skipped answers q"
  by (simp add: answered_correctly_def unanswered_or_skipped_iff split: option.splits)

lemma tally_bound:
  "length (filter (answered_correctly answers) qs) + length (filter (unanswered_or_skipped answers) qs)
     \<le> length qs"
  by (induction qs) (auto dest: disjoint_tally)

lemma no_answers_tally:
  "filter (answered_correctly []) qs = []"
  "length (filter (unanswered_or_skipped []) qs) = length qs"
  by (induction qs) (simp_all add: answered_correctly_def unanswered_or_skipped_def find_answer_def)

text \<open>
  Claim C1. For every question list and every list of stored answers, the scoring loop
  reports as skipped the number of questions with no stored answer of the same order value
  or with a matched answer that is a skip, as correct the number of questions whose matched,
  non-skipped answer equals the question's correct-answer index, as total the number of
  questions, and as wrong total minus correct minus skipped; so correct + skipped + wrong
  is the total, wrong is never negative, and with no stored answer at all everything is
  skipped.
\<close>

theorem scoring_counts:
  "skippedQuestions (score qs answers) = length (filter (unanswered_or_skipped answers) qs)
   \<and> correctAnswers (score qs answers) = length (filter (answered_correctly answers) qs)
   \<and> totalQuestions (score qs answers) = length qs
   \<and> wrongAnswers (score qs answers) =
       int (totalQuestions (score qs answers)) - int (correctAnswers (score qs answers))
         - int (skippedQuestions (score qs answers))
   \<and> int (correctAnswers (score qs answers)) + int (skippedQuestions (score qs answers))
         + wrongAnswers (score qs answers) = int (totalQuestions (score qs answers))
   \<and> 0 \<le> wrongAnswers (score qs answers)
   \<and> score qs [] = \<lparr> totalQuestions = length qs, correctAnswers = 0,
                      skippedQuestions = length qs, wrongAnswers = 0 \<rparr>"
proof -
  have empty: "score qs [] = \<lparr> totalQuestions = length qs, correctAnswers = 0,
                      skippedQuestions = length qs, wrongAnswers = 0 \<rparr>"
    by (simp add: score_def Let_def score_loop_counts no_answers_tally)
  have general: "skippedQuestions (score qs answers) = length (filter (unanswered_or_skipped answers) qs)
   \<and> correctAnswers (score qs answers) = length (filter (answered_correctly answers) qs)
   \<and> totalQuestions (score qs answers) = length qs
   \<and> wrongAnswers (score qs answers) =
       int (totalQuestions (score qs answers)) - int (correctAnswers (score qs answers))
         - int (skippedQuestions (score qs answers))
   \<and> int (correctAnswers (score qs answers)) + int (skippedQuestions (score qs answers))
         + wrongAnswers (score qs answers) = int (totalQuestions (score qs answers))
   \<and> 0 \<le> wrongAnswers (score qs answers)"
    using tally_bound [of answers qs]
    by (simp add: score_def Let_def score_loop_counts)
  from general empty show ?thesis by simp
qed

text \<open>
  The scenario of the specification: three questions with correct indices 1, 0, 2 at orders
  1, 2, 3; the candidate answers order 1 with 1, order 2 with 2 and skips order 3.
\<close>

theorem scoring_counts_witness:
  "score
     [\<lparr>q_id = ''Q1'', q_order = JNum 1, correctAnswer = JNum 1\<rparr>,
      \<lparr>q_id = ''Q2'', q_order = JNum 2, correctAnswer = JNum 0\<rparr>,
      \<lparr>q_id = ''Q3'', q_order = JNum 3, correctAnswer = JNum 2\<rparr>]
     [\<lparr>examName = JStr ''Math101'', timestamp = JStr ''t'', order = JNum 1, answer = JNum 1,
       skipped = JBool False, submittedVia = JStr ''individual''\<rparr>,
      \<lparr>examName = JStr ''Math101'', timestamp = JStr ''t'', order = JNum 2, answer = JNum 2,
       skipped = JBool False, submittedVia = JStr ''individual''\<rparr>,
      \<lparr>examName = JStr ''Math101'', timestamp = JStr ''t'', order = JNum 3, answer = JNull,
       skipped = JBool True, submittedVia = JStr ''completion''\<rparr>]
   = \<lparr>totalQuestions = 3, correctAnswers = 1, skippedQuestions = 1, wrongAnswers = 1\<rparr>"
  using scoring_counts
    [of "[\<lparr>q_id = ''Q1'', q_order = JNum 1, correctAnswer = JNum 1\<rparr>,
      \<lparr>q_id = ''Q2'', q_order = JNum 2, correctAnswer = JNum 0\<rparr>,
      \<lparr>q_id = ''Q3'', q_order = JNum 3, correctAnswer = JNum 2\<rparr>]"
     "[\<lparr>examName = JStr ''Math101'', timestamp = JStr ''t'', order = JNum 1, answer = JNum 1,
       skipped = JBool False, submittedVia = JStr ''individual''\<rparr>,
      \<lparr>examName = JStr ''Math101'', timestamp = JStr ''t'', order = JNum 2, answer = JNum 2,
       skipped = JBool False, submittedVia = JStr ''individual''\<rparr>,
      \<lparr>examName = JStr ''Math101'', timestamp = JStr ''t'', order = JNum 3, answer = JNull,
       skipped = JBool True, submittedVia = JStr ''completion''\<rparr>]"]
  by (simp add: score_def score_loop_def score_question_def find_answer_def)

section \<open>Stale answers\<close>

lemma find_skip_unmatched:
  assumes "\<forall>e \<in> set extra. \<not> P e"
  shows "List.find P (xs @ extra @ ys) = List.find P (xs @ ys)"
proof (induction xs)
  case Nil
  from assms show ?case by (induction extra) simp_all
next
  case (Cons x xs)
  then show ?case by simp
qed

lemma find_answer_stale:
  assumes "\<forall>e \<in> set extra. \<not> strict_eq (order e) (q_order q)"
  shows "find_answer (xs @ extra @ ys) q = find_answer (xs @ ys) q"
  unfolding find_answer_def using assms by (rule find_skip_unmatched)

lemma score_question_stale:
  assumes "\<forall>e \<in> set extra. \<not> strict_eq (order e) (q_order q)"
  shows "score_question (xs @ extra @ ys) cs q = score_question (xs @ ys) cs q"
  by (simp add: score_question_def find_answer_stale [OF assms])

lemma foldl_agree:
  assumes "\<And>a x. x \<in> set xs \<Longrightarrow> f a x = g a x"
  shows "foldl f a xs = foldl g a xs"
  using assms by (induction xs arbitrary: a) simp_all

text \<open>
  Claim C8. Stored answers whose order value matches no question's order value (left over
  from a deleted question, say) change nothing: wherever they stand among the stored
  answers, the counts are those computed without them. The scoring loop runs over the
  questions and is a total function, so no stored answer can make it fail.
\<close>

theorem stale_answers_ignored:
  assumes "\<forall>e \<in> set extra. \<forall>q \<in> set qs. \<not> strict_eq (order e) (q_order q)"
  shows "score qs (xs @ extra @ ys) = score qs (xs @ ys)"
proof -
  have "score_loop qs (xs @ extra @ ys) = score_loop qs (xs @ ys)"
    unfolding score_loop_def
  proof (rule foldl_agree)
    fix cs q
    assume "q \<in> set qs"
    with assms have "\<forall>e \<in> set extra. \<not> strict_eq (order e) (q_order q)" by blast
    then show "score_question (xs @ extra @ ys) cs q = score_question (xs @ ys) cs q"
      by (rule score_question_stale)
  qed
  then show ?thesis by (simp add: score_def)
qed

theorem stale_answers_ignored_witness:
  "score [\<lparr>q_id = ''Q1'', q_order = JNum 1, correctAnswer = JNum 0\<rparr>]
        ([\<lparr>examName = JStr ''Math101'', timestamp = JStr ''t'', order = JNum 1,
           answer = JNum 0, skipped = JBool False, submittedVia = JStr ''individual''\<rparr>]
         @ [\<lparr>examName = JStr ''Math101'', timestamp = JStr ''t'', order = JNum 9,
             answer = JNum 0, skipped = JBool False, submittedVia = JStr ''timeout''\<rparr>]
         @ [])
     = score [\<lparr>q_id = ''Q1'', q_order = JNum 1, correctAnswer = JNum 0\<rparr>]
        ([\<lparr>examName = JStr ''Math101'', timestamp = JStr ''t'', order = JNum 1,
           answer = JNum 0, skipped = JBool False, submittedVia = JStr ''individual''\<rparr>]
         @ [])
   \<and> score [\<lparr>q_id = ''Q1'', q_order = JNum 1, correctAnswer = JNum 0\<rparr>]
        ([\<lparr>examName = JStr ''Math101'', timestamp = JStr ''t'', order = JNum 1,
           answer = JNum 0, skipped = JBool False, submittedVia = JStr ''individual''\<rparr>]
         @ [])
     = \<lparr>totalQuestions = 1, correctAnswers = 1, skippedQuestions = 0, wrongAnswers = 0\<rparr>"
proof -
  have unmatched:
    "\<forall>e \<in> set [\<lparr>examName = JStr ''Math101'', timestamp = JStr ''t'', order = JNum 9,
                  answer = JNum 0, skipped = JBool False, submittedVia = JStr ''timeout''\<rparr>].
      \<forall>q \<in> set [\<lparr>q_id = ''Q1'', q_order = JNum 1, correctAnswer = JNum 0\<rparr>].
        \<not> strict_eq (order e) (q_order q)"
    by simp
  have counted: "score [\<lparr>q_id = ''Q1'', q_order = JNum 1, correctAnswer = JNum 0\<rparr>]
        ([\<lparr>examName = JStr ''Math101'', timestamp = JStr ''t'', order = JNum 1,
           answer = JNum 0, skipped = JBool False, submittedVia = JStr ''individual''\<rparr>]
         @ [])
     = \<lparr>totalQuestions = 1, correctAnswers = 1, skippedQuestions = 0, wrongAnswers = 0\<rparr>"
    by (simp add: score_def score_loop_def score_question_def find_answer_def)
  from stale_answers_ignored [OF unmatched,
        of "[\<lparr>examName = JStr ''Math101'', timestamp = JStr ''t'', order = JNum 1,
           answer = JNum 0, skipped = JBool False, submittedVia = JStr ''individual''\<rparr>]" "[]"]
    counted
  show ?thesis by (rule conjI)
qed

section \<open>Facts about the building blocks\<close>

lemma bindE_Inl [simp]: "bindE (Inl x) f = Inl x"
  by (simp add: bindE_def)

lemma bindE_Inr [simp]: "bindE (Inr y) f = f y"
  by (simp add: bindE_def)

lemma bindE_eq_Inr: "bindE m f = Inr z \<longleftrightarrow> (\<exists>y. m = Inr y \<and> f y = Inr z)"
  by (cases m) simp_all

lemma strict_eq_undefined [simp]: "strict_eq v JUndefined \<longleftrightarrow> v = JUndefined"
  by (cases v) simp_all

lemma strict_eq_null [simp]: "strict_eq v JNull \<longleftrightarrow> v = JNull"
  by (cases v) simp_all

lemma js_prop_nullish: "nullish v \<Longrightarrow> js_prop v k = JUndefined"
  by (auto simp: nullish_def)

lemma formattedQuestionId_Inr:
  "formattedQuestionId v = Inr k \<longleftrightarrow> (\<exists>q. v = JStr q \<and> k = formatQuestionId q)"
  by (cases v) (auto simp: formattedQuestionId_def)

lemma doc_id_Inr: "doc_id v = Inr r \<longleftrightarrow> v = JStr r \<and> r \<noteq> []"
  by (cases v) (auto simp: doc_id_def)

lemma stage_set_Inr:
  "stage_set rn fq d = Inr w \<longleftrightarrow>
     (\<exists>r. rn = JStr r \<and> r \<noteq> [] \<and> storable d \<and> w = SetAnswer r fq d)"
  by (auto simp: stage_set_def bindE_eq_Inr doc_id_Inr)

lemma commit_Inr:
  "commit e fs ws = Inr fs' \<longleftrightarrow> commit_ok e \<and> apply_writes ws fs = Some fs'"
  by (auto simp: commit_def split: option.splits)

lemma mapE_Inr_all2: "mapE f xs = Inr ys \<Longrightarrow> list_all2 (\<lambda>x y. f x = Inr y) xs ys"
proof (induction xs arbitrary: ys)
  case Nil
  then show ?case by simp
next
  case (Cons x xs)
  then show ?case by (auto simp: bindE_eq_Inr)
qed

lemma mapE_all2_Inr: "list_all2 (\<lambda>x y. f x = Inr y) xs ys \<Longrightarrow> mapE f xs = Inr ys"
  by (induction xs ys rule: list_all2_induct) simp_all

lemma apply_writes_sets:
  assumes "\<forall>w \<in> set ws. sets_answer w"
  shows "apply_writes ws fs = Some (fs\<lparr>ans_docs := foldl put_answer (ans_docs fs) ws\<rparr>)"
  using assms
proof (induction ws arbitrary: fs)
  case Nil
  show ?case by simp
next
  case (Cons w ws)
  from Cons.prems obtain r k d where w: "w = SetAnswer r k d"
    by (cases w) auto
  from Cons.prems have "\<forall>w \<in> set ws. sets_answer w" by simp
  from Cons.IH [OF this] w show ?case by (simp add: fun_upd_def)
qed

lemma foldl_put_answer_written:
  assumes "SetAnswer r k d \<in> set ws"
  shows "\<exists>d'. foldl put_answer m ws (r, k) = Some d' \<and> SetAnswer r k d' \<in> set ws"
  using assms
proof (induction ws arbitrary: d rule: rev_induct)
  case Nil
  then show ?case by simp
next
  case (snoc w ws)
  show ?case
  proof (cases "\<exists>d0. w = SetAnswer r k d0")
    case True
    then show ?thesis by auto
  next
    case False
    with snoc.prems have "SetAnswer r k d \<in> set ws" by auto
    from snoc.IH [OF this] obtain d' where
      "foldl put_answer m ws (r, k) = Some d'" "SetAnswer r k d' \<in> set ws" by blast
    with False show ?thesis by (cases w) auto
  qed
qed

lemma foldl_put_answer_other:
  assumes "\<forall>d. SetAnswer r k d \<notin> set ws"
  shows "foldl put_answer m ws (r, k) = m (r, k)"
  using assms
proof (induction ws rule: rev_induct)
  case Nil
  show ?case by simp
next
  case (snoc w ws)
  then show ?case by (cases w) auto
qed

lemma bulk_entry_Inr:
  "bulk_entry e a = Inr w \<longleftrightarrow>
     (\<exists>r q. js_prop a ''registrationNumber'' = JStr r \<and> r \<noteq> []
        \<and> js_prop a ''questionId'' = JStr q \<and> storable (bulk_doc e a)
        \<and> w = SetAnswer r (formatQuestionId q) (bulk_doc e a))"
  by (auto simp: bulk_entry_def bindE_eq_Inr formattedQuestionId_Inr stage_set_Inr
      nullish_def)

lemma timeout_entry_Inr:
  "timeout_entry e a = Inr w \<longleftrightarrow>
     (\<exists>r q. js_prop a ''registrationNumber'' = JStr r \<and> r \<noteq> []
        \<and> js_prop a ''questionId'' = JStr q \<and> storable (timeout_doc e a)
        \<and> w = SetAnswer r (formatQuestionId q) (timeout_doc e a))"
  by (auto simp: timeout_entry_def bindE_eq_Inr formattedQuestionId_Inr stage_set_Inr
      nullish_def)

lemma completion_entry_Inr:
  "completion_entry e c x a = Inr w \<longleftrightarrow>
     (\<exists>q. js_prop a ''questionId'' = JStr q \<and> storable (completion_doc e x a)
        \<and> w = SetAnswer c (formatQuestionId q) (completion_doc e x a))"
  by (auto simp: completion_entry_def bindE_eq_Inr formattedQuestionId_Inr
      nullish_def)

lemma all2_sets_answer:
  assumes "list_all2 (\<lambda>a w. \<exists>r k d. w = SetAnswer r k d) as ws"
  shows "\<forall>w \<in> set ws. sets_answer w"
  using assms by (induction rule: list_all2_induct) auto

lemma mapE_entries_set:
  assumes "mapE f as = Inr ws" and "\<And>a w. f a = Inr w \<Longrightarrow> sets_answer w"
  shows "\<forall>w \<in> set ws. sets_answer w"
proof -
  from assms(1) have "list_all2 (\<lambda>x y. f x = Inr y) as ws" by (rule mapE_Inr_all2)
  then show ?thesis
    by (induction rule: list_all2_induct) (auto dest: assms(2))
qed

lemma bulk_writes_set: "mapE (bulk_entry e) as = Inr ws \<Longrightarrow> \<forall>w \<in> set ws. sets_answer w"
  by (erule mapE_entries_set) (auto simp: bulk_entry_Inr)

lemma timeout_writes_set: "mapE (timeout_entry e) as = Inr ws \<Longrightarrow> \<forall>w \<in> set ws. sets_answer w"
  by (erule mapE_entries_set) (auto simp: timeout_entry_Inr)

lemma completion_writes_set:
  "mapE (completion_entry e c x) as = Inr ws \<Longrightarrow> \<forall>w \<in> set ws. sets_answer w"
  by (erule mapE_entries_set) (auto simp: completion_entry_Inr)

lemma reply_status [simp]: "status (reply c ok m) = c"
  by (simp add: reply_def)

named_theorems run_defs \<open>definitions unfolded to run a handler on concrete data\<close>

declare save_answer_def [run_defs] save_answer_try_def [run_defs] individual_doc_def [run_defs]
  save_all_answers_def [run_defs] save_all_answers_try_def [run_defs] bulk_entry_def [run_defs]
  bulk_doc_def [run_defs] timeout_save_answers_def [run_defs]
  timeout_save_answers_try_def [run_defs] timeout_entry_def [run_defs] timeout_doc_def [run_defs]
  attempted_def [run_defs] complete_exam_def [run_defs] complete_exam_try_def [run_defs]
  completion_entry_def [run_defs] completion_doc_def [run_defs]
  formattedQuestionId_def [run_defs] formatQuestionId_def [run_defs] stage_set_def [run_defs]
  doc_id_def [run_defs] storable_def [run_defs] commit_def [run_defs] js_or_def [run_defs]
  nullish_def [run_defs] parseInt_def [run_defs] parseInt_string_def [run_defs]
  int_to_string_def [run_defs] digit_char_def [run_defs] is_space_def [run_defs]
  digit_value_def [run_defs] reply_def [run_defs] example_env_def [run_defs]
  example_store_def [run_defs] example_tuple_def [run_defs] attempted_entry_def [run_defs]
  well_formed_entry_def [run_defs]

section \<open>Outcomes of the submission handlers\<close>

lemma save_answer_try_missing:
  assumes "\<not> nullish body"
    and "\<not> truthy (js_prop body ''registrationNumber'') \<or> \<not> truthy (js_prop body ''questionId'')
         \<or> js_prop body ''answer'' = JUndefined \<or> \<not> truthy (js_prop body ''examName'')"
  shows "save_answer e fs body = (reply 400 False ''Missing required fields'', fs)"
  using assms by (simp add: save_answer_def save_answer_try_def)

lemma save_answer_outcome:
  assumes "\<not> nullish body"
    and "truthy (js_prop body ''registrationNumber'')" "truthy (js_prop body ''questionId'')"
        "js_prop body ''answer'' \<noteq> JUndefined" "truthy (js_prop body ''examName'')"
  shows "save_answer e fs body = (reply 500 False ''Failed to save answer'', fs)
       \<or> (\<exists>r q. js_prop body ''registrationNumber'' = JStr r \<and> js_prop body ''questionId'' = JStr q
              \<and> save_answer e fs body =
                  (reply 200 True ''Answer saved successfully'',
                   fs\<lparr>ans_docs := (ans_docs fs)((r, formatQuestionId q) \<mapsto> individual_doc e body)\<rparr>))"
proof (cases "save_answer_try e fs body")
  case (Inl err)
  then show ?thesis by (simp add: save_answer_def)
next
  case (Inr res)
  with assms obtain fq w fs' where
    fq: "formattedQuestionId (js_prop body ''questionId'') = Inr fq"
    and w: "stage_set (js_prop body ''registrationNumber'') fq (individual_doc e body) = Inr w"
    and c: "commit e fs [w] = Inr fs'"
    and res: "res = (reply 200 True ''Answer saved successfully'', fs')"
    by (auto simp: save_answer_try_def bindE_eq_Inr)
  from fq obtain q where q: "js_prop body ''questionId'' = JStr q" "fq = formatQuestionId q"
    by (auto simp: formattedQuestionId_Inr)
  from w obtain r where r: "js_prop body ''registrationNumber'' = JStr r"
      "w = SetAnswer r fq (individual_doc e body)"
    by (auto simp: stage_set_Inr)
  from c r have "fs' = fs\<lparr>ans_docs := (ans_docs fs)((r, fq) \<mapsto> individual_doc e body)\<rparr>"
    by (auto simp: commit_Inr)
  with Inr res q r show ?thesis by (simp add: save_answer_def)
qed

lemma save_answer_accepts:
  assumes "\<not> nullish body"
    and "js_prop body ''registrationNumber'' = JStr r" "r \<noteq> []"
    and "js_prop body ''questionId'' = JStr q" "q \<noteq> []"
    and "js_prop body ''answer'' \<noteq> JUndefined" "truthy (js_prop body ''examName'')"
    and "js_prop body ''order'' \<noteq> JUndefined"
    and "commit_ok e"
  shows "save_answer e fs body =
           (reply 200 True ''Answer saved successfully'',
            fs\<lparr>ans_docs := (ans_docs fs)((r, formatQuestionId q) \<mapsto> individual_doc e body)\<rparr>)"
proof -
  have "storable (individual_doc e body)"
    using assms
    by (auto simp: storable_def individual_doc_def js_or_def parseInt_def parseInt_string_def Let_def)
  with assms show ?thesis
    by (auto simp: save_answer_def save_answer_try_def formattedQuestionId_def stage_set_def
        doc_id_def commit_def)
qed

lemma save_all_answers_outcome:
  "save_all_answers e fs body = (reply 500 False ''Failed to save answers'', fs)
   \<or> save_all_answers e fs body =
        (reply 400 False ''Invalid answers format. Expected non-empty array.'', fs)
   \<or> (\<exists>as ws. js_prop body ''answers'' = JArr as \<and> as \<noteq> [] \<and> commit_ok e
         \<and> mapE (bulk_entry e) as = Inr ws
         \<and> save_all_answers e fs body =
             (reply 200 True ''All answers saved successfully'',
              fs\<lparr>ans_docs := foldl put_answer (ans_docs fs) ws\<rparr>))"
proof (cases "save_all_answers_try e fs body")
  case (Inl err)
  then show ?thesis by (simp add: save_all_answers_def)
next
  case (Inr res)
  show ?thesis
  proof (cases "\<exists>as. js_prop body ''answers'' = JArr as \<and> as \<noteq> []")
    case False
    with Inr have "res = (reply 400 False ''Invalid answers format. Expected non-empty array.'', fs)"
      by (auto simp: save_all_answers_try_def split: if_splits jsval.splits)
    with Inr show ?thesis by (simp add: save_all_answers_def)
  next
    case True
    then obtain as where as: "js_prop body ''answers'' = JArr as" "as \<noteq> []" by blast
    with Inr obtain ws fs' where ws: "mapE (bulk_entry e) as = Inr ws"
      and c: "commit e fs ws = Inr fs'"
      and res: "res = (reply 200 True ''All answers saved successfully'', fs')"
      by (auto simp: save_all_answers_try_def bindE_eq_Inr split: if_splits)
    from c have ok: "commit_ok e" and ap: "apply_writes ws fs = Some fs'"
      by (simp_all add: commit_Inr)
    from ap apply_writes_sets [OF bulk_writes_set [OF ws], of fs]
    have "fs' = fs\<lparr>ans_docs := foldl put_answer (ans_docs fs) ws\<rparr>" by simp
    with Inr as ws ok res show ?thesis by (auto simp: save_all_answers_def)
  qed
qed

lemma filterE_attempted_Inr:
  "filterE attempted as = Inr kept \<longleftrightarrow>
     (\<forall>a \<in> set as. \<not> nullish a) \<and> kept = filter attempted_entry as"
proof (induction as arbitrary: kept)
  case Nil
  show ?case by auto
next
  case (Cons a as)
  show ?case
  proof (cases "nullish a")
    case True
    then show ?thesis by (simp add: attempted_def)
  next
    case False
    then have "attempted a = Inr (attempted_entry a)"
      by (simp add: attempted_def attempted_entry_def)
    with False Cons.IH show ?thesis
      by (auto simp: bindE_eq_Inr)
  qed
qed

lemma parseInt_defined: "parseInt v \<noteq> JUndefined"
  by (simp add: parseInt_def parseInt_string_def Let_def)

lemma well_formed_timeout_entry:
  assumes "well_formed_entry a"
  shows "\<exists>w. timeout_entry e a = Inr w"
proof -
  from assms obtain r q where "js_prop a ''registrationNumber'' = JStr r" "r \<noteq> []"
      "js_prop a ''questionId'' = JStr q"
    by (auto simp: well_formed_entry_def split: jsval.splits)
  moreover from assms have "storable (timeout_doc e a)"
    by (simp add: well_formed_entry_def storable_def timeout_doc_def parseInt_defined)
  ultimately show ?thesis by (simp add: timeout_entry_Inr)
qed

lemma mapE_total:
  assumes "\<forall>x \<in> set xs. \<exists>y. f x = Inr y"
  shows "\<exists>ys. mapE f xs = Inr ys"
  using assms by (induction xs) auto

lemma timeout_save_answers_outcome:
  assumes "js_prop body ''answers'' = JArr as" and "\<forall>a \<in> set as. \<not> nullish a"
  shows "(filter attempted_entry as = [] \<longrightarrow>
           timeout_save_answers e fs body = (reply 200 True ''No attempted answers to save'', fs))
       \<and> (filter attempted_entry as \<noteq> [] \<longrightarrow>
           (case mapE (timeout_entry e) (filter attempted_entry as) of
              Inl err \<Rightarrow> timeout_save_answers e fs body = (reply 500 False ''Failed to save answers'', fs)
            | Inr ws \<Rightarrow>
                if commit_ok e
                then timeout_save_answers e fs body =
                       ((reply 200 True ''Attempted answers saved successfully'')
                          \<lparr>savedCount := Some (length (filter attempted_entry as))\<rparr>,
                        fs\<lparr>ans_docs := foldl put_answer (ans_docs fs) ws\<rparr>)
                else timeout_save_answers e fs body = (reply 500 False ''Failed to save answers'', fs)))"
proof -
  from assms(1) have nb: "\<not> nullish body" by (auto simp: nullish_def)
  from assms(2) have f: "filterE attempted as = Inr (filter attempted_entry as)"
    by (simp add: filterE_attempted_Inr)
  show ?thesis
  proof (cases "mapE (timeout_entry e) (filter attempted_entry as)")
    case (Inl err)
    with nb assms(1) f show ?thesis
      by (simp add: timeout_save_answers_def timeout_save_answers_try_def)
  next
    case (Inr ws)
    from apply_writes_sets [OF timeout_writes_set [OF Inr], of fs]
    have "apply_writes ws fs = Some (fs\<lparr>ans_docs := foldl put_answer (ans_docs fs) ws\<rparr>)" .
    with nb assms(1) f Inr show ?thesis
      by (simp add: timeout_save_answers_def timeout_save_answers_try_def commit_def)
  qed
qed

lemma complete_exam_outcome:
  "complete_exam e fs body = (reply 500 False ''Failed to complete exam'', fs)
   \<or> complete_exam e fs body =
        (reply 400 False ''Missing required fields or invalid answers format'', fs)
   \<or> (\<exists>c cd as ws. js_prop body ''candidateId'' = JStr c \<and> c \<noteq> []
         \<and> truthy (js_prop body ''examName'')
         \<and> js_prop body ''answers'' = JArr as \<and> cand_docs fs c = Some cd \<and> commit_ok e
         \<and> mapE (completion_entry e c (js_prop body ''examName'')) as = Inr ws
         \<and> complete_exam e fs body =
             ((reply 200 True ''Exam completed and answers submitted successfully'')
                \<lparr>totalAnswers := Some (length as),
                 skippedCount := Some (length (filter (\<lambda>a. truthy (js_prop a ''skipped'')) as))\<rparr>,
              fs\<lparr>cand_docs := (cand_docs fs)(c \<mapsto> cd\<lparr>submitted := JBool True,
                                                      examCompletedAt := JStr (now e)\<rparr>),
                 ans_docs := foldl put_answer (ans_docs fs) ws\<rparr>))"
proof (cases "complete_exam_try e fs body")
  case (Inl err)
  then show ?thesis by (simp add: complete_exam_def)
next
  case (Inr res)
  show ?thesis
  proof (cases "truthy (js_prop body ''candidateId'') \<and> truthy (js_prop body ''examName'')
                \<and> (\<exists>as. js_prop body ''answers'' = JArr as)")
    case False
    with Inr
    have "res = (reply 400 False ''Missing required fields or invalid answers format'', fs)"
      by (auto simp: complete_exam_try_def split: if_splits jsval.splits)
    with Inr show ?thesis by (simp add: complete_exam_def)
  next
    case True
    then obtain as where as: "js_prop body ''answers'' = JArr as"
      and t: "truthy (js_prop body ''candidateId'')" "truthy (js_prop body ''examName'')"
      by blast
    with Inr obtain c ws fs' where c: "doc_id (js_prop body ''candidateId'') = Inr c"
      and ws: "mapE (completion_entry e c (js_prop body ''examName'')) as = Inr ws"
      and cm: "commit e fs (UpdateSubmitted c (JStr (now e)) # ws) = Inr fs'"
      and res: "res = ((reply 200 True ''Exam completed and answers submitted successfully'')
                \<lparr>totalAnswers := Some (length as),
                 skippedCount := Some (length (filter (\<lambda>a. truthy (js_prop a ''skipped'')) as))\<rparr>,
                fs')"
      by (auto simp: complete_exam_try_def bindE_eq_Inr split: if_splits)
    from c have cid: "js_prop body ''candidateId'' = JStr c" "c \<noteq> []"
      by (simp_all add: doc_id_Inr)
    from cm have ok: "commit_ok e"
      and ap: "apply_writes (UpdateSubmitted c (JStr (now e)) # ws) fs = Some fs'"
      by (simp_all add: commit_Inr)
    from ap obtain cd where cd: "cand_docs fs c = Some cd"
      and ap': "apply_writes ws
          (fs\<lparr>cand_docs := (cand_docs fs)(c \<mapsto> cd\<lparr>submitted := JBool True,
                                                  examCompletedAt := JStr (now e)\<rparr>)\<rparr>) = Some fs'"
      by (auto split: option.splits)
    from ap' apply_writes_sets [OF completion_writes_set [OF ws]]
    have "fs' = fs\<lparr>cand_docs := (cand_docs fs)(c \<mapsto> cd\<lparr>submitted := JBool True,
                                                   examCompletedAt := JStr (now e)\<rparr>),
               ans_docs := foldl put_answer (ans_docs fs) ws\<rparr>"
      by simp
    with Inr res cid t as cd ok ws show ?thesis
      by (auto simp: complete_exam_def)
  qed
qed

section \<open>The individual save\<close>

text \<open>
  Claim C6. The individual save answers 400 (missing field), and writes nothing, exactly when
  the registration number, the question identifier or the exam name fails the source's
  presence test (a falsy value) or the answer is \<^verbatim>\<open>undefined\<close>. The answer is tested for
  \<^verbatim>\<open>undefined\<close> only: a request with answer 0 and otherwise acceptable fields is answered
  200 and its document, with answer 0, is in the store. The request body is what the JSON
  body parser delivers, so it is not \<^verbatim>\<open>null\<close> or \<^verbatim>\<open>undefined\<close>.
\<close>

theorem save_answer_missing_field:
  assumes "\<not> nullish body"
  shows "(status (fst (save_answer e fs body)) = 400 \<longleftrightarrow>
            (\<not> truthy (js_prop body ''registrationNumber'') \<or> \<not> truthy (js_prop body ''questionId'')
             \<or> js_prop body ''answer'' = JUndefined \<or> \<not> truthy (js_prop body ''examName'')))
       \<and> (status (fst (save_answer e fs body)) = 400 \<longrightarrow>
            save_answer e fs body = (reply 400 False ''Missing required fields'', fs))
       \<and> (js_prop body ''answer'' = JNum 0
            \<and> js_prop body ''registrationNumber'' = JStr r \<and> r \<noteq> []
            \<and> js_prop body ''questionId'' = JStr q \<and> q \<noteq> []
            \<and> truthy (js_prop body ''examName'') \<and> js_prop body ''order'' \<noteq> JUndefined
            \<and> commit_ok e \<longrightarrow>
            save_answer e fs body =
              (reply 200 True ''Answer saved successfully'',
               fs\<lparr>ans_docs := (ans_docs fs)((r, formatQuestionId q) \<mapsto> individual_doc e body)\<rparr>)
            \<and> answer (individual_doc e body) = JNum 0)"
proof -
  let ?missing = "\<not> truthy (js_prop body ''registrationNumber'') \<or> \<not> truthy (js_prop body ''questionId'')
             \<or> js_prop body ''answer'' = JUndefined \<or> \<not> truthy (js_prop body ''examName'')"
  have rejected: "save_answer e fs body = (reply 400 False ''Missing required fields'', fs)"
    if ?missing
    using assms that by (rule save_answer_try_missing)
  have passed: "status (fst (save_answer e fs body)) \<noteq> 400" if "\<not> ?missing"
    using save_answer_outcome [of body e fs] assms that by auto
  have zero: "answer (individual_doc e body) = JNum 0" if "js_prop body ''answer'' = JNum 0"
    using that
    by (simp add: individual_doc_def parseInt_def parseInt_string_def int_to_string_def
        digit_char_def is_space_def digit_value_def)
  have stored: "save_answer e fs body =
              (reply 200 True ''Answer saved successfully'',
               fs\<lparr>ans_docs := (ans_docs fs)((r, formatQuestionId q) \<mapsto> individual_doc e body)\<rparr>)"
    if "js_prop body ''answer'' = JNum 0" "js_prop body ''registrationNumber'' = JStr r" "r \<noteq> []"
       "js_prop body ''questionId'' = JStr q" "q \<noteq> []" "truthy (js_prop body ''examName'')"
       "js_prop body ''order'' \<noteq> JUndefined" "commit_ok e"
    using assms that by (intro save_answer_accepts) simp_all
  from rejected passed zero stored show ?thesis
    by (metis fst_conv reply_status)
qed

theorem save_answer_missing_field_witness:
  "\<not> nullish (JObj (example_tuple ''1'' (JNum 0) JUndefined))
   \<and> status (fst (save_answer example_env example_store
                     (JObj (example_tuple ''1'' (JNum 0) JUndefined)))) \<noteq> 400
   \<and> save_answer example_env example_store (JObj (example_tuple ''1'' (JNum 0) JUndefined)) =
       (reply 200 True ''Answer saved successfully'',
        example_store\<lparr>ans_docs := (ans_docs example_store)((''REG1'', ''Q1'') \<mapsto>
          \<lparr> examName = JStr ''Math101'', timestamp = JStr ''2025-03-01T10:00:00.000Z'',
            order = JNum 1, answer = JNum 0, skipped = JBool False,
            submittedVia = JStr ''individual'' \<rparr>)\<rparr>)"
proof -
  have body: "\<not> nullish (JObj (example_tuple ''1'' (JNum 0) JUndefined))"
    by (simp add: nullish_def)
  show ?thesis
    using save_answer_missing_field [OF body, of example_env example_store "''REG1''" "''1''"]
    by (simp add: example_tuple_def example_env_def individual_doc_def formatQuestionId_def
        js_or_def nullish_def)
qed

section \<open>Completion\<close>

lemma all2_left: "list_all2 P xs ys \<Longrightarrow> x \<in> set xs \<Longrightarrow> \<exists>y \<in> set ys. P x y"
  by (induction rule: list_all2_induct) auto

lemma all2_right: "list_all2 P xs ys \<Longrightarrow> y \<in> set ys \<Longrightarrow> \<exists>x \<in> set xs. P x y"
  by (induction rule: list_all2_induct) auto

lemma completion_answers_written:
  assumes ws: "mapE (completion_entry e c x) as = Inr ws" and a: "a \<in> set as"
  shows "\<exists>q d. js_prop a ''questionId'' = JStr q
           \<and> foldl put_answer m ws (c, formatQuestionId q) = Some d
           \<and> submittedVia d = JStr ''completion''"
proof -
  from ws have all2: "list_all2 (\<lambda>a w. completion_entry e c x a = Inr w) as ws"
    by (rule mapE_Inr_all2)
  from all2_left [OF all2 a] obtain w where w: "w \<in> set ws" "completion_entry e c x a = Inr w"
    by blast
  then obtain q where q: "js_prop a ''questionId'' = JStr q"
    "w = SetAnswer c (formatQuestionId q) (completion_doc e x a)"
    by (auto simp: completion_entry_Inr)
  with w foldl_put_answer_written [of c "formatQuestionId q" "completion_doc e x a" ws m]
  obtain d' where d': "foldl put_answer m ws (c, formatQuestionId q) = Some d'"
    "SetAnswer c (formatQuestionId q) d' \<in> set ws" by auto
  from all2_right [OF all2 d'(2)]
  obtain a' where "completion_entry e c x a' = Inr (SetAnswer c (formatQuestionId q) d')"
    by blast
  then have "submittedVia d' = JStr ''completion''"
    by (auto simp: completion_entry_Inr completion_doc_def)
  with q d' show ?thesis by blast
qed

text \<open>
  Claim C4. Of the four submission paths only the completion path changes candidate
  documents: the other three leave them as they were, whatever the request. Completion is
  all or nothing: a response other than 200 leaves the whole store unchanged, and a 200
  response means that the candidate is marked submitted with the completion time and that
  every answer of the batch has its document, written by this path's batch.
\<close>

theorem completion_atomic:
  "cand_docs (snd (save_answer e fs body)) = cand_docs fs
   \<and> cand_docs (snd (save_all_answers e fs body)) = cand_docs fs
   \<and> cand_docs (snd (timeout_save_answers e fs body)) = cand_docs fs
   \<and> (status (fst (complete_exam e fs body)) \<noteq> 200 \<longrightarrow> snd (complete_exam e fs body) = fs)
   \<and> (status (fst (complete_exam e fs body)) = 200 \<longrightarrow>
        (\<exists>c cd as. js_prop body ''candidateId'' = JStr c \<and> cand_docs fs c = Some cd
           \<and> js_prop body ''answers'' = JArr as
           \<and> cand_docs (snd (complete_exam e fs body)) =
                (cand_docs fs)(c \<mapsto> cd\<lparr>submitted := JBool True, examCompletedAt := JStr (now e)\<rparr>)
           \<and> (\<forall>a \<in> set as. \<exists>q d. js_prop a ''questionId'' = JStr q
                  \<and> ans_docs (snd (complete_exam e fs body)) (c, formatQuestionId q) = Some d
                  \<and> submittedVia d = JStr ''completion'')))"
proof -
  have individual: "cand_docs (snd (save_answer e fs body)) = cand_docs fs"
  proof (cases "nullish body \<or> \<not> truthy (js_prop body ''registrationNumber'')
      \<or> \<not> truthy (js_prop body ''questionId'')
      \<or> js_prop body ''answer'' = JUndefined \<or> \<not> truthy (js_prop body ''examName'')")
    case True
    then show ?thesis by (auto simp: save_answer_def save_answer_try_def)
  next
    case False
    with save_answer_outcome [of body e fs] show ?thesis by auto
  qed
  have bulk: "cand_docs (snd (save_all_answers e fs body)) = cand_docs fs"
    using save_all_answers_outcome [of e fs body] by auto
  have timeout: "cand_docs (snd (timeout_save_answers e fs body)) = cand_docs fs"
  proof (cases "timeout_save_answers_try e fs body")
    case (Inl err)
    then show ?thesis by (simp add: timeout_save_answers_def)
  next
    case (Inr res)
    show ?thesis
    proof (cases "\<exists>as. js_prop body ''answers'' = JArr as")
      case False
      with Inr have "snd res = fs"
        by (auto simp: timeout_save_answers_try_def split: if_splits jsval.splits)
      with Inr show ?thesis by (simp add: timeout_save_answers_def)
    next
      case True
      then obtain as where as: "js_prop body ''answers'' = JArr as" by blast
      with Inr have "\<forall>a \<in> set as. \<not> nullish a"
        by (auto simp: timeout_save_answers_try_def bindE_eq_Inr filterE_attempted_Inr
            split: if_splits)
      from timeout_save_answers_outcome [OF as this, of e fs] show ?thesis
        by (auto split: sum.splits if_splits)
    qed
  qed
  have failed: "snd (complete_exam e fs body) = fs" if "status (fst (complete_exam e fs body)) \<noteq> 200"
    using complete_exam_outcome [of e fs body] that by (auto simp: reply_def)
  have succeeded: "\<exists>c cd as. js_prop body ''candidateId'' = JStr c \<and> cand_docs fs c = Some cd
           \<and> js_prop body ''answers'' = JArr as
           \<and> cand_docs (snd (complete_exam e fs body)) =
                (cand_docs fs)(c \<mapsto> cd\<lparr>submitted := JBool True, examCompletedAt := JStr (now e)\<rparr>)
           \<and> (\<forall>a \<in> set as. \<exists>q d. js_prop a ''questionId'' = JStr q
                  \<and> ans_docs (snd (complete_exam e fs body)) (c, formatQuestionId q) = Some d
                  \<and> submittedVia d = JStr ''completion'')"
    if "status (fst (complete_exam e fs body)) = 200"
  proof -
    from complete_exam_outcome [of e fs body] that
    obtain c cd as ws where c: "js_prop body ''candidateId'' = JStr c" "cand_docs fs c = Some cd"
        "js_prop body ''answers'' = JArr as"
      and ws: "mapE (completion_entry e c (js_prop body ''examName'')) as = Inr ws"
      and res: "snd (complete_exam e fs body) =
              fs\<lparr>cand_docs := (cand_docs fs)(c \<mapsto> cd\<lparr>submitted := JBool True,
                                                      examCompletedAt := JStr (now e)\<rparr>),
                 ans_docs := foldl put_answer (ans_docs fs) ws\<rparr>"
      by (auto simp: reply_def)
    from completion_answers_written [OF ws] res c show ?thesis
      by auto
  qed
  from individual bulk timeout failed succeeded show ?thesis by blast
qed

theorem completion_atomic_witness:
  "status (fst (complete_exam example_env example_store
      (JObj [(''candidateId'', JStr ''REG1''), (''examName'', JStr ''Math101''),
             (''answers'', JArr [JObj (example_tuple ''5'' (JNum 2) (JBool False))])]))) = 200
   \<and> cand_docs (snd (complete_exam example_env example_store
      (JObj [(''candidateId'', JStr ''REG1''), (''examName'', JStr ''Math101''),
             (''answers'', JArr [JObj (example_tuple ''5'' (JNum 2) (JBool False))])])))
       = (cand_docs example_store)(''REG1'' \<mapsto>
           \<lparr> exam = JStr ''Math101'', candidateName = JStr ''Asha'', phone = JStr ''9000000000'',
             submitted = JBool True, used = JBool True,
             examCompletedAt = JStr ''2025-03-01T10:00:00.000Z'' \<rparr>)
   \<and> ans_docs (snd (complete_exam example_env example_store
      (JObj [(''candidateId'', JStr ''REG1''), (''examName'', JStr ''Math101''),
             (''answers'', JArr [JObj (example_tuple ''5'' (JNum 2) (JBool False))])])))
        (''REG1'', ''Q5'')
       = Some \<lparr> examName = JStr ''Math101'', timestamp = JStr ''2025-03-01T10:00:00.000Z'',
            order = JNum 1, answer = JNum 2, skipped = JBool False,
            submittedVia = JStr ''completion'' \<rparr>
   \<and> status (fst (complete_exam (example_env\<lparr>commit_ok := False\<rparr>) example_store
      (JObj [(''candidateId'', JStr ''REG1''), (''examName'', JStr ''Math101''),
             (''answers'', JArr [JObj (example_tuple ''5'' (JNum 2) (JBool False))])]))) = 500
   \<and> snd (complete_exam (example_env\<lparr>commit_ok := False\<rparr>) example_store
      (JObj [(''candidateId'', JStr ''REG1''), (''examName'', JStr ''Math101''),
             (''answers'', JArr [JObj (example_tuple ''5'' (JNum 2) (JBool False))])])) = example_store"
proof -
  let ?body = "JObj [(''candidateId'', JStr ''REG1''), (''examName'', JStr ''Math101''),
             (''answers'', JArr [JObj (example_tuple ''5'' (JNum 2) (JBool False))])]"
  let ?cd = "\<lparr> exam = JStr ''Math101'', candidateName = JStr ''Asha'', phone = JStr ''9000000000'',
            submitted = JBool False, used = JBool True, examCompletedAt = JUndefined \<rparr>"
  have ok: "status (fst (complete_exam example_env example_store ?body)) = 200"
    by (simp add: run_defs)
  have request: "js_prop ?body ''candidateId'' = JStr ''REG1''"
    "cand_docs example_store ''REG1'' = Some ?cd"
    by (simp_all add: example_store_def)
  from completion_atomic [of example_env example_store ?body] ok
  obtain c cd where "js_prop ?body ''candidateId'' = JStr c" "cand_docs example_store c = Some cd"
    "cand_docs (snd (complete_exam example_env example_store ?body)) =
       (cand_docs example_store)(c \<mapsto> cd\<lparr>submitted := JBool True,
                                            examCompletedAt := JStr (now example_env)\<rparr>)"
    by blast
  with request have "cand_docs (snd (complete_exam example_env example_store ?body)) =
       (cand_docs example_store)(''REG1'' \<mapsto> ?cd\<lparr>submitted := JBool True,
                                            examCompletedAt := JStr (now example_env)\<rparr>)"
    by simp
  then have marked: "cand_docs (snd (complete_exam example_env example_store ?body)) =
       (cand_docs example_store)(''REG1'' \<mapsto>
           \<lparr> exam = JStr ''Math101'', candidateName = JStr ''Asha'', phone = JStr ''9000000000'',
             submitted = JBool True, used = JBool True,
             examCompletedAt = JStr ''2025-03-01T10:00:00.000Z'' \<rparr>)"
    by (simp add: example_env_def)
  have written: "ans_docs (snd (complete_exam example_env example_store ?body)) (''REG1'', ''Q5'')
       = Some \<lparr> examName = JStr ''Math101'', timestamp = JStr ''2025-03-01T10:00:00.000Z'',
            order = JNum 1, answer = JNum 2, skipped = JBool False,
            submittedVia = JStr ''completion'' \<rparr>"
    by (simp add: run_defs)
  have failed: "status (fst (complete_exam (example_env\<lparr>commit_ok := False\<rparr>) example_store
                  ?body)) = 500"
    by (simp add: run_defs)
  with completion_atomic [of "example_env\<lparr>commit_ok := False\<rparr>" example_store ?body]
  have unchanged: "snd (complete_exam (example_env\<lparr>commit_ok := False\<rparr>) example_store ?body)
      = example_store"
    by simp
  from ok marked written failed unchanged show ?thesis by (intro conjI)
qed

text \<open>
  Claim C10. The completion path accepts an empty array of answers: with a candidate id and
  an exam name that pass the presence test, validation does not reject the request, and for
  a registered candidate and a store that commits, the candidate is marked submitted with
  the completion time while the answer collection stays as it was. The bulk save rejects
  the same empty array with 400 and writes nothing.
\<close>

theorem complete_exam_empty_answers:
  "(\<not> nullish body \<and> truthy (js_prop body ''candidateId'') \<and> truthy (js_prop body ''examName'')
      \<and> js_prop body ''answers'' = JArr [] \<longrightarrow>
      status (fst (complete_exam e fs body)) \<noteq> 400)
   \<and> (js_prop body ''candidateId'' = JStr c \<and> c \<noteq> [] \<and> cand_docs fs c = Some cd
      \<and> truthy (js_prop body ''examName'') \<and> js_prop body ''answers'' = JArr [] \<and> commit_ok e \<longrightarrow>
      complete_exam e fs body =
        ((reply 200 True ''Exam completed and answers submitted successfully'')
           \<lparr>totalAnswers := Some 0, skippedCount := Some 0\<rparr>,
         fs\<lparr>cand_docs := (cand_docs fs)(c \<mapsto> cd\<lparr>submitted := JBool True,
                                                 examCompletedAt := JStr (now e)\<rparr>)\<rparr>))
   \<and> (\<not> nullish body \<and> js_prop body ''answers'' = JArr [] \<longrightarrow>
      save_all_answers e fs body =
        (reply 400 False ''Invalid answers format. Expected non-empty array.'', fs))"
proof -
  have validation: "status (fst (complete_exam e fs body)) \<noteq> 400"
    if "\<not> nullish body" "truthy (js_prop body ''candidateId'')" "truthy (js_prop body ''examName'')"
       "js_prop body ''answers'' = JArr []"
    using that
    by (cases "js_prop body ''candidateId''")
       (simp_all add: complete_exam_def complete_exam_try_def doc_id_def commit_def
          split: option.splits)
  have completed: "complete_exam e fs body =
        ((reply 200 True ''Exam completed and answers submitted successfully'')
           \<lparr>totalAnswers := Some 0, skippedCount := Some 0\<rparr>,
         fs\<lparr>cand_docs := (cand_docs fs)(c \<mapsto> cd\<lparr>submitted := JBool True,
                                                 examCompletedAt := JStr (now e)\<rparr>)\<rparr>)"
    if "js_prop body ''candidateId'' = JStr c" "c \<noteq> []" "cand_docs fs c = Some cd"
       "truthy (js_prop body ''examName'')" "js_prop body ''answers'' = JArr []" "commit_ok e"
  proof -
    from that(1) have "\<not> nullish body" by (auto simp: nullish_def)
    with that show ?thesis
      by (simp add: complete_exam_def complete_exam_try_def doc_id_def commit_def)
  qed
  have bulk: "save_all_answers e fs body =
        (reply 400 False ''Invalid answers format. Expected non-empty array.'', fs)"
    if "\<not> nullish body" "js_prop body ''answers'' = JArr []"
    using that by (simp add: save_all_answers_def save_all_answers_try_def)
  from validation completed bulk show ?thesis by blast
qed

theorem complete_exam_empty_answers_witness:
  "complete_exam example_env example_store
     (JObj [(''candidateId'', JStr ''REG1''), (''examName'', JStr ''Math101''), (''answers'', JArr [])])
   = ((reply 200 True ''Exam completed and answers submitted successfully'')
           \<lparr>totalAnswers := Some 0, skippedCount := Some 0\<rparr>,
      example_store\<lparr>cand_docs := (cand_docs example_store)(''REG1'' \<mapsto>
          \<lparr> exam = JStr ''Math101'', candidateName = JStr ''Asha'', phone = JStr ''9000000000'',
            submitted = JBool True, used = JBool True,
            examCompletedAt = JStr ''2025-03-01T10:00:00.000Z'' \<rparr>)\<rparr>)
   \<and> save_all_answers example_env example_store
        (JObj [(''candidateId'', JStr ''REG1''), (''examName'', JStr ''Math101''), (''answers'', JArr [])])
     = (reply 400 False ''Invalid answers format. Expected non-empty array.'', example_store)"
proof -
  let ?body = "JObj [(''candidateId'', JStr ''REG1''), (''examName'', JStr ''Math101''),
                     (''answers'', JArr [])]"
  let ?cd = "\<lparr> exam = JStr ''Math101'', candidateName = JStr ''Asha'', phone = JStr ''9000000000'',
            submitted = JBool False, used = JBool True, examCompletedAt = JUndefined \<rparr>"
  have request: "js_prop ?body ''candidateId'' = JStr ''REG1'' \<and> ''REG1'' \<noteq> []
      \<and> cand_docs example_store ''REG1'' = Some ?cd
      \<and> truthy (js_prop ?body ''examName'') \<and> js_prop ?body ''answers'' = JArr []
      \<and> commit_ok example_env"
    by (simp add: example_store_def example_env_def)
  have empty: "\<not> nullish ?body \<and> js_prop ?body ''answers'' = JArr []"
    by (simp add: nullish_def)
  note claim = complete_exam_empty_answers [of ?body example_env example_store "''REG1''" ?cd]
  from claim request
  have "complete_exam example_env example_store ?body
     = ((reply 200 True ''Exam completed and answers submitted successfully'')
           \<lparr>totalAnswers := Some 0, skippedCount := Some 0\<rparr>,
        example_store\<lparr>cand_docs := (cand_docs example_store)(''REG1'' \<mapsto>
          ?cd\<lparr>submitted := JBool True, examCompletedAt := JStr (now example_env)\<rparr>)\<rparr>)"
    by blast
  then have completed: "complete_exam example_env example_store ?body
     = ((reply 200 True ''Exam completed and answers submitted successfully'')
           \<lparr>totalAnswers := Some 0, skippedCount := Some 0\<rparr>,
      example_store\<lparr>cand_docs := (cand_docs example_store)(''REG1'' \<mapsto>
          \<lparr> exam = JStr ''Math101'', candidateName = JStr ''Asha'', phone = JStr ''9000000000'',
            submitted = JBool True, used = JBool True,
            examCompletedAt = JStr ''2025-03-01T10:00:00.000Z'' \<rparr>)\<rparr>)"
    by (simp add: example_env_def)
  from claim empty
  have rejected: "save_all_answers example_env example_store ?body
     = (reply 400 False ''Invalid answers format. Expected non-empty array.'', example_store)"
    by blast
  from completed rejected show ?thesis by (rule conjI)
qed

section \<open>The timeout save\<close>

lemma timeout_writes_all2:
  assumes "mapE (timeout_entry e) kept = Inr ws"
  shows "list_all2 (\<lambda>a w. \<exists>r q. js_prop a ''registrationNumber'' = JStr r
                      \<and> js_prop a ''questionId'' = JStr q
                      \<and> w = SetAnswer r (formatQuestionId q) (timeout_doc e a)) kept ws"
proof -
  from assms have "list_all2 (\<lambda>a w. timeout_entry e a = Inr w) kept ws" by (rule mapE_Inr_all2)
  then show ?thesis
    by (rule list_all2_mono) (auto simp: timeout_entry_Inr)
qed

text \<open>
  Claim C3. For a batch sent to the timeout path (an array without \<^verbatim>\<open>null\<close> elements),
  the entries kept are those that are not skipped and whose answer is neither \<^verbatim>\<open>null\<close>
  nor \<^verbatim>\<open>undefined\<close>. When none is kept the path answers 200 with the message that there
  is nothing to save, no count, and an unchanged store. When some are kept, either the
  request fails with 500 and nothing is written, or the batch written has exactly one write
  per kept entry, in order, at the entry's normalised key, and the response's saved count
  is the number of kept entries; the second case is the one that happens when the store
  commits and every kept entry is well formed. A document written by this path is never a
  skip record.
\<close>

theorem timeout_save_filtered:
  assumes "js_prop body ''answers'' = JArr as" and "\<forall>a \<in> set as. \<not> nullish a"
  shows "(filter attempted_entry as = [] \<longrightarrow>
            timeout_save_answers e fs body = (reply 200 True ''No attempted answers to save'', fs))
       \<and> (filter attempted_entry as \<noteq> [] \<longrightarrow>
            timeout_save_answers e fs body = (reply 500 False ''Failed to save answers'', fs)
            \<or> (\<exists>ws. list_all2 (\<lambda>a w. \<exists>r q. js_prop a ''registrationNumber'' = JStr r
                               \<and> js_prop a ''questionId'' = JStr q
                               \<and> w = SetAnswer r (formatQuestionId q) (timeout_doc e a))
                        (filter attempted_entry as) ws
                 \<and> timeout_save_answers e fs body =
                     ((reply 200 True ''Attempted answers saved successfully'')
                        \<lparr>savedCount := Some (length (filter attempted_entry as))\<rparr>,
                      fs\<lparr>ans_docs := foldl put_answer (ans_docs fs) ws\<rparr>)))
       \<and> (filter attempted_entry as \<noteq> [] \<and> commit_ok e
            \<and> (\<forall>a \<in> set (filter attempted_entry as). well_formed_entry a) \<longrightarrow>
            status (fst (timeout_save_answers e fs body)) = 200)
       \<and> skipped (timeout_doc e a) = JBool False"
proof -
  note outcome = timeout_save_answers_outcome [OF assms, of e fs]
  let ?kept = "filter attempted_entry as"
  have none: "timeout_save_answers e fs body = (reply 200 True ''No attempted answers to save'', fs)"
    if "?kept = []"
    using outcome that by simp
  have some: "timeout_save_answers e fs body = (reply 500 False ''Failed to save answers'', fs)
            \<or> (\<exists>ws. list_all2 (\<lambda>a w. \<exists>r q. js_prop a ''registrationNumber'' = JStr r
                               \<and> js_prop a ''questionId'' = JStr q
                               \<and> w = SetAnswer r (formatQuestionId q) (timeout_doc e a)) ?kept ws
                 \<and> timeout_save_answers e fs body =
                     ((reply 200 True ''Attempted answers saved successfully'')
                        \<lparr>savedCount := Some (length ?kept)\<rparr>,
                      fs\<lparr>ans_docs := foldl put_answer (ans_docs fs) ws\<rparr>))"
    if "?kept \<noteq> []"
  proof (cases "mapE (timeout_entry e) ?kept")
    case (Inl err)
    with outcome that show ?thesis by simp
  next
    case (Inr ws)
    from timeout_writes_all2 [OF Inr] outcome that Inr show ?thesis
      by (cases "commit_ok e") auto
  qed
  have accepted: "status (fst (timeout_save_answers e fs body)) = 200"
    if "?kept \<noteq> []" "commit_ok e" "\<forall>a \<in> set ?kept. well_formed_entry a"
  proof -
    from that(3) have "\<forall>a \<in> set ?kept. \<exists>w. timeout_entry e a = Inr w"
      by (blast intro: well_formed_timeout_entry)
    then obtain ws where "mapE (timeout_entry e) ?kept = Inr ws"
      using mapE_total by blast
    with outcome that show ?thesis by (simp add: reply_def)
  qed
  have noskip: "skipped (timeout_doc e a) = JBool False"
    by (simp add: timeout_doc_def)
  from none some accepted noskip show ?thesis by blast
qed

theorem timeout_save_filtered_witness:
  "timeout_save_answers example_env example_store
     (JObj [(''answers'', JArr [JObj (example_tuple ''1'' (JNum 2) (JBool False)),
                                 JObj (example_tuple ''2'' JNull (JBool False)),
                                 JObj (example_tuple ''3'' (JNum 1) (JBool True))])])
   = ((reply 200 True ''Attempted answers saved successfully'')\<lparr>savedCount := Some 1\<rparr>,
      example_store\<lparr>ans_docs := (ans_docs example_store)((''REG1'', ''Q1'') \<mapsto>
          \<lparr> examName = JStr ''Math101'', timestamp = JStr ''2025-03-01T10:00:00.000Z'',
            order = JNum 1, answer = JNum 2, skipped = JBool False,
            submittedVia = JStr ''timeout'' \<rparr>)\<rparr>)
   \<and> timeout_save_answers example_env example_store
       (JObj [(''answers'', JArr [JObj (example_tuple ''3'' (JNum 1) (JBool True))])])
     = (reply 200 True ''No attempted answers to save'', example_store)"
proof -
  have one: "js_prop (JObj [(''answers'', JArr [JObj (example_tuple ''1'' (JNum 2) (JBool False)),
                                 JObj (example_tuple ''2'' JNull (JBool False)),
                                 JObj (example_tuple ''3'' (JNum 1) (JBool True))])]) ''answers''
      = JArr [JObj (example_tuple ''1'' (JNum 2) (JBool False)),
                                 JObj (example_tuple ''2'' JNull (JBool False)),
                                 JObj (example_tuple ''3'' (JNum 1) (JBool True))]"
    by simp
  have one_objs: "\<forall>a \<in> set [JObj (example_tuple ''1'' (JNum 2) (JBool False)),
                                 JObj (example_tuple ''2'' JNull (JBool False)),
                                 JObj (example_tuple ''3'' (JNum 1) (JBool True))]. \<not> nullish a"
    by (simp add: nullish_def)
  have two: "js_prop (JObj [(''answers'', JArr [JObj (example_tuple ''3'' (JNum 1) (JBool True))])])
       ''answers'' = JArr [JObj (example_tuple ''3'' (JNum 1) (JBool True))]"
    by simp
  have two_objs: "\<forall>a \<in> set [JObj (example_tuple ''3'' (JNum 1) (JBool True))]. \<not> nullish a"
    by (simp add: nullish_def)
  have run:
    "timeout_save_answers example_env example_store
       (JObj [(''answers'', JArr [JObj (example_tuple ''1'' (JNum 2) (JBool False)),
                                   JObj (example_tuple ''2'' JNull (JBool False)),
                                   JObj (example_tuple ''3'' (JNum 1) (JBool True))])])
     = ((reply 200 True ''Attempted answers saved successfully'')\<lparr>savedCount := Some 1\<rparr>,
        example_store\<lparr>ans_docs := (ans_docs example_store)((''REG1'', ''Q1'') \<mapsto>
            \<lparr> examName = JStr ''Math101'', timestamp = JStr ''2025-03-01T10:00:00.000Z'',
              order = JNum 1, answer = JNum 2, skipped = JBool False,
              submittedVia = JStr ''timeout'' \<rparr>)\<rparr>)"
    by (simp add: run_defs)
  have kept: "filter attempted_entry [JObj (example_tuple ''3'' (JNum 1) (JBool True))] = []"
    by (simp add: attempted_entry_def example_tuple_def)
  from timeout_save_filtered [OF two two_objs, of example_env example_store] kept
  have "timeout_save_answers example_env example_store
       (JObj [(''answers'', JArr [JObj (example_tuple ''3'' (JNum 1) (JBool True))])])
     = (reply 200 True ''No attempted answers to save'', example_store)"
    by (simp only: simp_thms)
  with run timeout_save_filtered [OF one one_objs, of example_env example_store]
  show ?thesis by (simp only: simp_thms)
qed

section \<open>Question identifiers\<close>

lemma entries_written:
  assumes ws: "mapE f as = Inr ws" and a: "a \<in> set as"
    and shape: "\<And>a w. f a = Inr w \<Longrightarrow> \<exists>r q d. P a r q \<and> w = SetAnswer r (formatQuestionId q) d"
  shows "\<exists>r q d. P a r q \<and> foldl put_answer m ws (r, formatQuestionId q) = Some d"
proof -
  from ws have "list_all2 (\<lambda>a w. f a = Inr w) as ws" by (rule mapE_Inr_all2)
  from all2_left [OF this a] obtain w where w: "w \<in> set ws" "f a = Inr w" by blast
  from shape [OF w(2)] obtain r q d where
    p: "P a r q" and weq: "w = SetAnswer r (formatQuestionId q) d" by blast
  from w(1) weq have "SetAnswer r (formatQuestionId q) d \<in> set ws" by simp
  from foldl_put_answer_written [OF this, of m] p show ?thesis by blast
qed

lemma save_answer_200:
  assumes "status (fst (save_answer e fs body)) = 200"
  shows "\<exists>r q. js_prop body ''registrationNumber'' = JStr r \<and> js_prop body ''questionId'' = JStr q
           \<and> save_answer e fs body =
                (reply 200 True ''Answer saved successfully'',
                 fs\<lparr>ans_docs := (ans_docs fs)((r, formatQuestionId q) \<mapsto> individual_doc e body)\<rparr>)"
proof (cases "nullish body \<or> \<not> truthy (js_prop body ''registrationNumber'')
      \<or> \<not> truthy (js_prop body ''questionId'')
      \<or> js_prop body ''answer'' = JUndefined \<or> \<not> truthy (js_prop body ''examName'')")
  case True
  with assms show ?thesis by (auto simp: save_answer_def save_answer_try_def)
next
  case False
  with save_answer_outcome [of body e fs] assms show ?thesis by auto
qed

lemma timeout_200:
  assumes "status (fst (timeout_save_answers e fs body)) = 200"
  shows "\<exists>as. js_prop body ''answers'' = JArr as \<and> (\<forall>a \<in> set as. \<not> nullish a)"
proof (cases "timeout_save_answers_try e fs body")
  case (Inl err)
  with assms show ?thesis by (simp add: timeout_save_answers_def)
next
  case (Inr res)
  show ?thesis
  proof (cases "\<exists>as. js_prop body ''answers'' = JArr as")
    case False
    with Inr have "status (fst res) = 400"
      by (auto simp: timeout_save_answers_try_def split: if_splits jsval.splits)
    with Inr assms show ?thesis by (simp add: timeout_save_answers_def)
  next
    case True
    then obtain as where as: "js_prop body ''answers'' = JArr as" by blast
    with Inr have "\<forall>a \<in> set as. \<not> nullish a"
      by (auto simp: timeout_save_answers_try_def bindE_eq_Inr filterE_attempted_Inr
          split: if_splits)
    with as show ?thesis by blast
  qed
qed

text \<open>
  Claim C5. Every submission path normalises the question identifier with the same rule:
  the marker \<^verbatim>\<open>Q\<close> is put in front exactly when the identifier does not start with
  it. So \<^verbatim>\<open>5\<close> and \<^verbatim>\<open>Q5\<close> name one slot, normalising twice is normalising once, and
  a normalised identifier starts with the marker. After a successful request on any of the
  four paths, each answer the path writes is found in the store under the normalised
  identifier of its entry.
\<close>

theorem question_id_normalised:
  "formatQuestionId q = (if take 1 q = ''Q'' then q else ''Q'' @ q)
   \<and> formatQuestionId ''5'' = formatQuestionId ''Q5''
   \<and> formatQuestionId (formatQuestionId q) = formatQuestionId q
   \<and> take 1 (formatQuestionId q) = ''Q''
   \<and> (status (fst (save_answer e fs body)) = 200 \<longrightarrow>
        (\<exists>r q' d. js_prop body ''registrationNumber'' = JStr r
           \<and> js_prop body ''questionId'' = JStr q'
           \<and> ans_docs (snd (save_answer e fs body)) (r, formatQuestionId q') = Some d))
   \<and> (status (fst (save_all_answers e fs body)) = 200 \<longrightarrow>
        (\<exists>as. js_prop body ''answers'' = JArr as
           \<and> (\<forall>a \<in> set as. \<exists>r q' d. js_prop a ''registrationNumber'' = JStr r
                  \<and> js_prop a ''questionId'' = JStr q'
                  \<and> ans_docs (snd (save_all_answers e fs body)) (r, formatQuestionId q') = Some d)))
   \<and> (status (fst (timeout_save_answers e fs body)) = 200 \<longrightarrow>
        (\<exists>as. js_prop body ''answers'' = JArr as
           \<and> (\<forall>a \<in> set (filter attempted_entry as). \<exists>r q' d.
                  js_prop a ''registrationNumber'' = JStr r
                  \<and> js_prop a ''questionId'' = JStr q'
                  \<and> ans_docs (snd (timeout_save_answers e fs body)) (r, formatQuestionId q')
                      = Some d)))
   \<and> (status (fst (complete_exam e fs body)) = 200 \<longrightarrow>
        (\<exists>c as. js_prop body ''candidateId'' = JStr c \<and> js_prop body ''answers'' = JArr as
           \<and> (\<forall>a \<in> set as. \<exists>q' d. js_prop a ''questionId'' = JStr q'
                  \<and> ans_docs (snd (complete_exam e fs body)) (c, formatQuestionId q') = Some d)))"
proof -
  have rule: "formatQuestionId q = (if take 1 q = ''Q'' then q else ''Q'' @ q)"
    by (simp add: formatQuestionId_def)
  have same_slot: "formatQuestionId ''5'' = formatQuestionId ''Q5''"
    by (simp add: formatQuestionId_def)
  have idem: "formatQuestionId (formatQuestionId q) = formatQuestionId q"
    by (simp add: formatQuestionId_def)
  have marker: "take 1 (formatQuestionId q) = ''Q''"
    by (simp add: formatQuestionId_def)
  have individual: "\<exists>r q' d. js_prop body ''registrationNumber'' = JStr r
           \<and> js_prop body ''questionId'' = JStr q'
           \<and> ans_docs (snd (save_answer e fs body)) (r, formatQuestionId q') = Some d"
    if "status (fst (save_answer e fs body)) = 200"
    using save_answer_200 [OF that] by auto
  have bulk: "\<exists>as. js_prop body ''answers'' = JArr as
           \<and> (\<forall>a \<in> set as. \<exists>r q' d. js_prop a ''registrationNumber'' = JStr r
                  \<and> js_prop a ''questionId'' = JStr q'
                  \<and> ans_docs (snd (save_all_answers e fs body)) (r, formatQuestionId q') = Some d)"
    if "status (fst (save_all_answers e fs body)) = 200"
  proof -
    from save_all_answers_outcome [of e fs body] that
    obtain as ws where as: "js_prop body ''answers'' = JArr as"
      and ws: "mapE (bulk_entry e) as = Inr ws"
      and res: "snd (save_all_answers e fs body) = fs\<lparr>ans_docs := foldl put_answer (ans_docs fs) ws\<rparr>"
      by (auto simp: reply_def)
    have "\<exists>r q' d. (js_prop a ''registrationNumber'' = JStr r \<and> js_prop a ''questionId'' = JStr q')
             \<and> foldl put_answer (ans_docs fs) ws (r, formatQuestionId q') = Some d"
      if "a \<in> set as" for a
      using ws that by (rule entries_written) (auto simp: bulk_entry_Inr)
    with as res show ?thesis by auto
  qed
  have timeout: "\<exists>as. js_prop body ''answers'' = JArr as
           \<and> (\<forall>a \<in> set (filter attempted_entry as). \<exists>r q' d.
                  js_prop a ''registrationNumber'' = JStr r
                  \<and> js_prop a ''questionId'' = JStr q'
                  \<and> ans_docs (snd (timeout_save_answers e fs body)) (r, formatQuestionId q')
                      = Some d)"
    if ok: "status (fst (timeout_save_answers e fs body)) = 200"
  proof -
    from timeout_200 [OF ok] obtain as where as: "js_prop body ''answers'' = JArr as"
      and objs: "\<forall>a \<in> set as. \<not> nullish a" by blast
    note outcome = timeout_save_answers_outcome [OF as objs, of e fs]
    show ?thesis
    proof (cases "filter attempted_entry as = []")
      case True
      have "\<forall>a \<in> set (filter attempted_entry as). Q a" for Q
        unfolding True by simp
      with as show ?thesis by blast
    next
      case False
      with outcome ok obtain ws where ws: "mapE (timeout_entry e) (filter attempted_entry as) = Inr ws"
        and res: "snd (timeout_save_answers e fs body)
                    = fs\<lparr>ans_docs := foldl put_answer (ans_docs fs) ws\<rparr>"
        by (cases "mapE (timeout_entry e) (filter attempted_entry as)")
           (auto simp: reply_def split: if_splits)
      have "\<exists>r q' d. (js_prop a ''registrationNumber'' = JStr r \<and> js_prop a ''questionId'' = JStr q')
             \<and> foldl put_answer (ans_docs fs) ws (r, formatQuestionId q') = Some d"
        if "a \<in> set (filter attempted_entry as)" for a
        using ws that by (rule entries_written) (auto simp: timeout_entry_Inr)
      with as res show ?thesis by auto
    qed
  qed
  have completion: "\<exists>c as. js_prop body ''candidateId'' = JStr c \<and> js_prop body ''answers'' = JArr as
           \<and> (\<forall>a \<in> set as. \<exists>q' d. js_prop a ''questionId'' = JStr q'
                  \<and> ans_docs (snd (complete_exam e fs body)) (c, formatQuestionId q') = Some d)"
    if "status (fst (complete_exam e fs body)) = 200"
  proof -
    from complete_exam_outcome [of e fs body] that
    obtain c cd as ws where c: "js_prop body ''candidateId'' = JStr c"
        "js_prop body ''answers'' = JArr as"
      and ws: "mapE (completion_entry e c (js_prop body ''examName'')) as = Inr ws"
      and res: "snd (complete_exam e fs body) =
              fs\<lparr>cand_docs := (cand_docs fs)(c \<mapsto> cd\<lparr>submitted := JBool True,
                                                      examCompletedAt := JStr (now e)\<rparr>),
                 ans_docs := foldl put_answer (ans_docs fs) ws\<rparr>"
      by (auto simp: reply_def)
    from completion_answers_written [OF ws] res c show ?thesis
      by fastforce
  qed
  from rule same_slot idem marker individual bulk timeout completion show ?thesis
    by blast
qed

theorem question_id_normalised_witness:
  "status (fst (save_answer example_env example_store
      (JObj (example_tuple ''5'' (JNum 2) (JBool False) @
        [(''candidateId'', JStr ''REG1''),
         (''answers'', JArr [JObj (example_tuple ''Q5'' (JNum 3) (JBool False))])])))) = 200
   \<and> ans_docs (snd (save_answer example_env example_store
      (JObj (example_tuple ''5'' (JNum 2) (JBool False) @
        [(''candidateId'', JStr ''REG1''),
         (''answers'', JArr [JObj (example_tuple ''Q5'' (JNum 3) (JBool False))])]))))
        (''REG1'', ''Q5'')
      = Some \<lparr> examName = JStr ''Math101'', timestamp = JStr ''2025-03-01T10:00:00.000Z'',
            order = JNum 1, answer = JNum 2, skipped = JBool False,
            submittedVia = JStr ''individual'' \<rparr>
   \<and> status (fst (save_all_answers example_env example_store
      (JObj (example_tuple ''5'' (JNum 2) (JBool False) @
        [(''candidateId'', JStr ''REG1''),
         (''answers'', JArr [JObj (example_tuple ''Q5'' (JNum 3) (JBool False))])])))) = 200
   \<and> ans_docs (snd (save_all_answers example_env example_store
      (JObj (example_tuple ''5'' (JNum 2) (JBool False) @
        [(''candidateId'', JStr ''REG1''),
         (''answers'', JArr [JObj (example_tuple ''Q5'' (JNum 3) (JBool False))])]))))
        (''REG1'', ''Q5'')
      = Some \<lparr> examName = JStr ''Math101'', timestamp = JStr ''2025-03-01T10:00:00.000Z'',
            order = JNum 1, answer = JNum 3, skipped = JBool False,
            submittedVia = JUndefined \<rparr>
   \<and> status (fst (timeout_save_answers example_env example_store
      (JObj (example_tuple ''5'' (JNum 2) (JBool False) @
        [(''candidateId'', JStr ''REG1''),
         (''answers'', JArr [JObj (example_tuple ''Q5'' (JNum 3) (JBool False))])])))) = 200
   \<and> ans_docs (snd (timeout_save_answers example_env example_store
      (JObj (example_tuple ''5'' (JNum 2) (JBool False) @
        [(''candidateId'', JStr ''REG1''),
         (''answers'', JArr [JObj (example_tuple ''Q5'' (JNum 3) (JBool False))])]))))
        (''REG1'', ''Q5'')
      = Some \<lparr> examName = JStr ''Math101'', timestamp = JStr ''2025-03-01T10:00:00.000Z'',
            order = JNum 1, answer = JNum 3, skipped = JBool False,
            submittedVia = JStr ''timeout'' \<rparr>
   \<and> status (fst (complete_exam example_env example_store
      (JObj (example_tuple ''5'' (JNum 2) (JBool False) @
        [(''candidateId'', JStr ''REG1''),
         (''answers'', JArr [JObj (example_tuple ''Q5'' (JNum 3) (JBool False))])])))) = 200
   \<and> ans_docs (snd (complete_exam example_env example_store
      (JObj (example_tuple ''5'' (JNum 2) (JBool False) @
        [(''candidateId'', JStr ''REG1''),
         (''answers'', JArr [JObj (example_tuple ''Q5'' (JNum 3) (JBool False))])]))))
        (''REG1'', ''Q5'')
      = Some \<lparr> examName = JStr ''Math101'', timestamp = JStr ''2025-03-01T10:00:00.000Z'',
            order = JNum 1, answer = JNum 3, skipped = JBool False,
            submittedVia = JStr ''completion'' \<rparr>"
proof -
  have run: ?thesis
    by (simp add: run_defs)
  from question_id_normalised [of "''5''" example_env example_store
      "JObj (example_tuple ''5'' (JNum 2) (JBool False) @
        [(''candidateId'', JStr ''REG1''),
         (''answers'', JArr [JObj (example_tuple ''Q5'' (JNum 3) (JBool False))])])"]
  show ?thesis by - (rule run)
qed

section \<open>The coercion rule\<close>

lemma mapE_all2_prop:
  assumes "mapE f as = Inr ws" and "\<And>a w. f a = Inr w \<Longrightarrow> P a w"
  shows "list_all2 P as ws"
proof -
  from assms(1) have "list_all2 (\<lambda>a w. f a = Inr w) as ws" by (rule mapE_Inr_all2)
  then show ?thesis by (rule list_all2_mono) (rule assms(2))
qed

lemma all2_left_member:
  "list_all2 P xs ys \<Longrightarrow> list_all2 (\<lambda>a w. a \<in> set xs \<and> P a w) xs ys"
proof (induction rule: list_all2_induct)
  case Nil
  show ?case by simp
next
  case (Cons x xs y ys)
  from Cons.IH have "list_all2 (\<lambda>a w. a \<in> set (x # xs) \<and> P a w) xs ys"
    by (rule list_all2_mono) simp
  with Cons.hyps show ?case by simp
qed

lemma bulk_doc_coerced:
  "coerced (js_prop a ''skipped'') (js_prop a ''answer'') (bulk_doc e a)
   \<and> timestamp (bulk_doc e a) = JStr (now e) \<and> submittedVia (bulk_doc e a) = JUndefined"
  by (simp add: coerced_def bulk_doc_def)

lemma timeout_doc_coerced:
  "attempted_entry a \<Longrightarrow>
   coerced (js_prop a ''skipped'') (js_prop a ''answer'') (timeout_doc e a)
   \<and> stamped e ''timeout'' (timeout_doc e a)"
  by (simp add: coerced_def timeout_doc_def attempted_entry_def stamped_def)

lemma completion_doc_coerced:
  "stamped e ''completion'' (completion_doc e x a)
   \<and> (if truthy (js_prop a ''skipped'')
      then answer (completion_doc e x a) = JNull
           \<and> skipped (completion_doc e x a) = js_prop a ''skipped''
      else coerced (js_prop a ''skipped'') (js_prop a ''answer'') (completion_doc e x a))"
  by (simp add: coerced_def completion_doc_def stamped_def js_or_def)

lemma individual_doc_coerced:
  "stamped e ''individual'' (individual_doc e body)
   \<and> (\<not> truthy (js_prop body ''skipped'') \<longrightarrow>
        coerced (js_prop body ''skipped'') (js_prop body ''answer'') (individual_doc e body))"
  by (simp add: coerced_def individual_doc_def stamped_def js_or_def)

text \<open>
  Claim C2, as amended. On a successful request, the answer documents a path writes are
  those of a batch with one write per entry (per kept entry on the timeout path), and:
  on the bulk-save path every document obeys the coercion rule, carries the time of the
  write and carries no provenance tag; on the completion path every document carries the
  time and the tag \<^verbatim>\<open>completion\<close>, obeys the rule for an entry that is not skipped, and
  for a skipped entry has a \<^verbatim>\<open>null\<close> answer and the entry's own \<^verbatim>\<open>skipped\<close> value (which
  is \<^verbatim>\<open>true\<close> when the entry's flag is the boolean); on the timeout path every document
  obeys the rule and carries the time and the tag \<^verbatim>\<open>timeout\<close>; on the individual path
  the document carries the time and the tag \<^verbatim>\<open>individual\<close> and obeys the rule when the
  tuple is not skipped.
\<close>

theorem coercion_rule_by_path:
  "(status (fst (save_all_answers e fs body)) = 200 \<longrightarrow>
      (\<exists>as ws. js_prop body ''answers'' = JArr as
         \<and> ans_docs (snd (save_all_answers e fs body)) = foldl put_answer (ans_docs fs) ws
         \<and> list_all2 (\<lambda>a w. \<exists>r k d. w = SetAnswer r k d
               \<and> coerced (js_prop a ''skipped'') (js_prop a ''answer'') d
               \<and> timestamp d = JStr (now e) \<and> submittedVia d = JUndefined) as ws))
   \<and> (status (fst (complete_exam e fs body)) = 200 \<longrightarrow>
      (\<exists>as ws. js_prop body ''answers'' = JArr as
         \<and> ans_docs (snd (complete_exam e fs body)) = foldl put_answer (ans_docs fs) ws
         \<and> list_all2 (\<lambda>a w. \<exists>r k d. w = SetAnswer r k d
               \<and> stamped e ''completion'' d
               \<and> (if truthy (js_prop a ''skipped'')
                   then answer d = JNull \<and> skipped d = js_prop a ''skipped''
                   else coerced (js_prop a ''skipped'') (js_prop a ''answer'') d)) as ws))
   \<and> (status (fst (timeout_save_answers e fs body)) = 200 \<longrightarrow>
      (\<exists>as ws. js_prop body ''answers'' = JArr as
         \<and> ans_docs (snd (timeout_save_answers e fs body)) = foldl put_answer (ans_docs fs) ws
         \<and> list_all2 (\<lambda>a w. \<exists>r k d. w = SetAnswer r k d
               \<and> coerced (js_prop a ''skipped'') (js_prop a ''answer'') d
               \<and> stamped e ''timeout'' d) (filter attempted_entry as) ws))
   \<and> (status (fst (save_answer e fs body)) = 200 \<longrightarrow>
      (\<exists>r k d. ans_docs (snd (save_answer e fs body)) = (ans_docs fs)((r, k) \<mapsto> d)
         \<and> stamped e ''individual'' d
         \<and> (\<not> truthy (js_prop body ''skipped'') \<longrightarrow>
              coerced (js_prop body ''skipped'') (js_prop body ''answer'') d)))"
proof -
  have bulk: "\<exists>as ws. js_prop body ''answers'' = JArr as
         \<and> ans_docs (snd (save_all_answers e fs body)) = foldl put_answer (ans_docs fs) ws
         \<and> list_all2 (\<lambda>a w. \<exists>r k d. w = SetAnswer r k d
               \<and> coerced (js_prop a ''skipped'') (js_prop a ''answer'') d
               \<and> timestamp d = JStr (now e) \<and> submittedVia d = JUndefined) as ws"
    if "status (fst (save_all_answers e fs body)) = 200"
  proof -
    from save_all_answers_outcome [of e fs body] that
    obtain as ws where as: "js_prop body ''answers'' = JArr as"
      and ws: "mapE (bulk_entry e) as = Inr ws"
      and res: "snd (save_all_answers e fs body) = fs\<lparr>ans_docs := foldl put_answer (ans_docs fs) ws\<rparr>"
      by (auto simp: reply_def)
    have "list_all2 (\<lambda>a w. \<exists>r k d. w = SetAnswer r k d
               \<and> coerced (js_prop a ''skipped'') (js_prop a ''answer'') d
               \<and> timestamp d = JStr (now e) \<and> submittedVia d = JUndefined) as ws"
      using ws by (rule mapE_all2_prop) (auto simp: bulk_entry_Inr bulk_doc_coerced)
    moreover from res have "ans_docs (snd (save_all_answers e fs body))
        = foldl put_answer (ans_docs fs) ws" by simp
    ultimately show ?thesis using as by (intro exI [of _ as] exI [of _ ws] conjI)
  qed
  have completion: "\<exists>as ws. js_prop body ''answers'' = JArr as
         \<and> ans_docs (snd (complete_exam e fs body)) = foldl put_answer (ans_docs fs) ws
         \<and> list_all2 (\<lambda>a w. \<exists>r k d. w = SetAnswer r k d
               \<and> stamped e ''completion'' d
               \<and> (if truthy (js_prop a ''skipped'')
                   then answer d = JNull \<and> skipped d = js_prop a ''skipped''
                   else coerced (js_prop a ''skipped'') (js_prop a ''answer'') d)) as ws"
    if "status (fst (complete_exam e fs body)) = 200"
  proof -
    from complete_exam_outcome [of e fs body] that
    obtain c cd as ws where as: "js_prop body ''answers'' = JArr as"
      and ws: "mapE (completion_entry e c (js_prop body ''examName'')) as = Inr ws"
      and res: "snd (complete_exam e fs body) =
              fs\<lparr>cand_docs := (cand_docs fs)(c \<mapsto> cd\<lparr>submitted := JBool True,
                                                      examCompletedAt := JStr (now e)\<rparr>),
                 ans_docs := foldl put_answer (ans_docs fs) ws\<rparr>"
      by (auto simp: reply_def)
    have "list_all2 (\<lambda>a w. \<exists>r k d. w = SetAnswer r k d
               \<and> stamped e ''completion'' d
               \<and> (if truthy (js_prop a ''skipped'')
                   then answer d = JNull \<and> skipped d = js_prop a ''skipped''
                   else coerced (js_prop a ''skipped'') (js_prop a ''answer'') d)) as ws"
      using ws
    proof (rule mapE_all2_prop)
      fix a w
      assume "completion_entry e c (js_prop body ''examName'') a = Inr w"
      then obtain k where "w = SetAnswer c k (completion_doc e (js_prop body ''examName'') a)"
        by (auto simp: completion_entry_Inr)
      with completion_doc_coerced [of e "js_prop body ''examName''" a]
      show "\<exists>r k d. w = SetAnswer r k d
               \<and> stamped e ''completion'' d
               \<and> (if truthy (js_prop a ''skipped'')
                   then answer d = JNull \<and> skipped d = js_prop a ''skipped''
                   else coerced (js_prop a ''skipped'') (js_prop a ''answer'') d)"
        by blast
    qed
    moreover from res have "ans_docs (snd (complete_exam e fs body))
        = foldl put_answer (ans_docs fs) ws" by simp
    ultimately show ?thesis using as by (intro exI [of _ as] exI [of _ ws] conjI)
  qed
  have timeout: "\<exists>as ws. js_prop body ''answers'' = JArr as
         \<and> ans_docs (snd (timeout_save_answers e fs body)) = foldl put_answer (ans_docs fs) ws
         \<and> list_all2 (\<lambda>a w. \<exists>r k d. w = SetAnswer r k d
               \<and> coerced (js_prop a ''skipped'') (js_prop a ''answer'') d
               \<and> stamped e ''timeout'' d) (filter attempted_entry as) ws"
    if ok: "status (fst (timeout_save_answers e fs body)) = 200"
  proof -
    from timeout_200 [OF ok] obtain as where as: "js_prop body ''answers'' = JArr as"
      and objs: "\<forall>a \<in> set as. \<not> nullish a" by blast
    note outcome = timeout_save_answers_outcome [OF as objs, of e fs]
    show ?thesis
    proof (cases "filter attempted_entry as = []")
      case True
      with outcome have "ans_docs (snd (timeout_save_answers e fs body))
          = foldl put_answer (ans_docs fs) []" by simp
      moreover have "list_all2 (\<lambda>a w. \<exists>r k d. w = SetAnswer r k d
               \<and> coerced (js_prop a ''skipped'') (js_prop a ''answer'') d
               \<and> stamped e ''timeout'' d) (filter attempted_entry as) []"
        unfolding True by simp
      ultimately show ?thesis using as by (intro exI [of _ as] exI [of _ "[]"] conjI)
    next
      case False
      with outcome ok obtain ws where ws: "mapE (timeout_entry e) (filter attempted_entry as) = Inr ws"
        and res: "snd (timeout_save_answers e fs body)
                    = fs\<lparr>ans_docs := foldl put_answer (ans_docs fs) ws\<rparr>"
        by (cases "mapE (timeout_entry e) (filter attempted_entry as)")
           (auto simp: reply_def split: if_splits)
      from ws have "list_all2 (\<lambda>a w. timeout_entry e a = Inr w) (filter attempted_entry as) ws"
        by (rule mapE_Inr_all2)
      then have "list_all2 (\<lambda>a w. a \<in> set (filter attempted_entry as) \<and> timeout_entry e a = Inr w)
                   (filter attempted_entry as) ws"
        by (rule all2_left_member)
      then have "list_all2 (\<lambda>a w. \<exists>r k d. w = SetAnswer r k d
               \<and> coerced (js_prop a ''skipped'') (js_prop a ''answer'') d
               \<and> stamped e ''timeout'' d) (filter attempted_entry as) ws"
        by (rule list_all2_mono) (auto simp: timeout_entry_Inr timeout_doc_coerced)
      moreover from res have "ans_docs (snd (timeout_save_answers e fs body))
          = foldl put_answer (ans_docs fs) ws" by simp
      ultimately show ?thesis using as by (intro exI [of _ as] exI [of _ ws] conjI)
    qed
  qed
  have individual: "\<exists>r k d. ans_docs (snd (save_answer e fs body)) = (ans_docs fs)((r, k) \<mapsto> d)
         \<and> stamped e ''individual'' d
         \<and> (\<not> truthy (js_prop body ''skipped'') \<longrightarrow>
              coerced (js_prop body ''skipped'') (js_prop body ''answer'') d)"
    if "status (fst (save_answer e fs body)) = 200"
  proof -
    from save_answer_200 [OF that] obtain r q where
      "save_answer e fs body =
         (reply 200 True ''Answer saved successfully'',
          fs\<lparr>ans_docs := (ans_docs fs)((r, formatQuestionId q) \<mapsto> individual_doc e body)\<rparr>)"
      by blast
    then have "ans_docs (snd (save_answer e fs body))
        = (ans_docs fs)((r, formatQuestionId q) \<mapsto> individual_doc e body)"
      by simp
    with individual_doc_coerced [of e body] show ?thesis
      by (intro exI [of _ r] exI [of _ "formatQuestionId q"] exI [of _ "individual_doc e body"])
         simp
  qed
  show ?thesis
    by (intro conjI impI bulk completion timeout individual)
qed

theorem coercion_rule_by_path_witness:
  "status (fst (save_all_answers example_env example_store
      (JObj (example_tuple ''5'' (JNum 2) (JBool False) @
        [(''candidateId'', JStr ''REG1''),
         (''answers'', JArr [JObj (example_tuple ''Q5'' JNull (JBool True))])])))) = 200
   \<and> status (fst (complete_exam example_env example_store
      (JObj (example_tuple ''5'' (JNum 2) (JBool False) @
        [(''candidateId'', JStr ''REG1''),
         (''answers'', JArr [JObj (example_tuple ''Q5'' JNull (JBool True))])])))) = 200
   \<and> status (fst (timeout_save_answers example_env example_store
      (JObj (example_tuple ''5'' (JNum 2) (JBool False) @
        [(''candidateId'', JStr ''REG1''),
         (''answers'', JArr [JObj (example_tuple ''Q5'' JNull (JBool True))])])))) = 200
   \<and> status (fst (save_answer example_env example_store
      (JObj (example_tuple ''5'' (JNum 2) (JBool False) @
        [(''candidateId'', JStr ''REG1''),
         (''answers'', JArr [JObj (example_tuple ''Q5'' JNull (JBool True))])])))) = 200
   \<and> ans_docs (snd (save_all_answers example_env example_store
      (JObj (example_tuple ''5'' (JNum 2) (JBool False) @
        [(''candidateId'', JStr ''REG1''),
         (''answers'', JArr [JObj (example_tuple ''Q5'' JNull (JBool True))])]))))
        (''REG1'', ''Q5'')
      = Some \<lparr> examName = JStr ''Math101'', timestamp = JStr ''2025-03-01T10:00:00.000Z'',
            order = JNum 1, answer = JNull, skipped = JBool True, submittedVia = JUndefined \<rparr>
   \<and> ans_docs (snd (complete_exam example_env example_store
      (JObj (example_tuple ''5'' (JNum 2) (JBool False) @
        [(''candidateId'', JStr ''REG1''),
         (''answers'', JArr [JObj (example_tuple ''Q5'' JNull (JBool True))])]))))
        (''REG1'', ''Q5'')
      = Some \<lparr> examName = JStr ''Math101'', timestamp = JStr ''2025-03-01T10:00:00.000Z'',
            order = JNum 1, answer = JNull, skipped = JBool True,
            submittedVia = JStr ''completion'' \<rparr>
   \<and> ans_docs (snd (save_answer example_env example_store
      (JObj (example_tuple ''5'' (JNum 2) (JBool False) @
        [(''candidateId'', JStr ''REG1''),
         (''answers'', JArr [JObj (example_tuple ''Q5'' JNull (JBool True))])]))))
        (''REG1'', ''Q5'')
      = Some \<lparr> examName = JStr ''Math101'', timestamp = JStr ''2025-03-01T10:00:00.000Z'',
            order = JNum 1, answer = JNum 2, skipped = JBool False,
            submittedVia = JStr ''individual'' \<rparr>"
proof -
  have run: ?thesis
    by (simp add: run_defs)
  from coercion_rule_by_path [of example_env example_store
      "JObj (example_tuple ''5'' (JNum 2) (JBool False) @
        [(''candidateId'', JStr ''REG1''),
         (''answers'', JArr [JObj (example_tuple ''Q5'' JNull (JBool True))])])"]
  show ?thesis by - (rule run)
qed

text \<open>
  Claim C2 as stated fails at two requests. An individual save of a skipped tuple
  (\<^verbatim>\<open>skipped: true, answer: null\<close>) stores the integer parse of the answer, here \<open>NaN\<close>,
  where the rule asks for \<^verbatim>\<open>null\<close>; and a bulk save stores a document with no provenance
  tag at all.
\<close>

theorem coercion_rule_counterexample:
  "ans_docs (snd (save_answer example_env example_store
       (JObj (example_tuple ''1'' JNull (JBool True))))) (''REG1'', ''Q1'')
     = Some \<lparr> examName = JStr ''Math101'', timestamp = JStr ''2025-03-01T10:00:00.000Z'',
            order = JNum 1, answer = JNaN, skipped = JBool True,
            submittedVia = JStr ''individual'' \<rparr>
   \<and> \<not> coerced (JBool True) JNull
        \<lparr> examName = JStr ''Math101'', timestamp = JStr ''2025-03-01T10:00:00.000Z'',
            order = JNum 1, answer = JNaN, skipped = JBool True,
            submittedVia = JStr ''individual'' \<rparr>
   \<and> ans_docs (snd (save_all_answers example_env example_store
       (JObj [(''answers'', JArr [JObj (example_tuple ''1'' (JNum 2) (JBool False))])])))
        (''REG1'', ''Q1'')
     = Some \<lparr> examName = JStr ''Math101'', timestamp = JStr ''2025-03-01T10:00:00.000Z'',
            order = JNum 1, answer = JNum 2, skipped = JBool False,
            submittedVia = JUndefined \<rparr>
   \<and> \<not> stamped example_env ''individual''
        \<lparr> examName = JStr ''Math101'', timestamp = JStr ''2025-03-01T10:00:00.000Z'',
            order = JNum 1, answer = JNum 2, skipped = JBool False,
            submittedVia = JUndefined \<rparr>
   \<and> \<not> stamped example_env ''completion''
        \<lparr> examName = JStr ''Math101'', timestamp = JStr ''2025-03-01T10:00:00.000Z'',
            order = JNum 1, answer = JNum 2, skipped = JBool False,
            submittedVia = JUndefined \<rparr>
   \<and> \<not> stamped example_env ''timeout''
        \<lparr> examName = JStr ''Math101'', timestamp = JStr ''2025-03-01T10:00:00.000Z'',
            order = JNum 1, answer = JNum 2, skipped = JBool False,
            submittedVia = JUndefined \<rparr>"
  by (simp add: run_defs coerced_def stamped_def)

section \<open>Today's exam\<close>

lemma score_candidates_effect:
  assumes "score_candidates e x n cs results db = (out, db')"
  shows "(\<forall>k. db' k \<noteq> db k \<longrightarrow>
            fst k = exam_id x
            \<and> (\<exists>c \<in> set cs. snd k = cand_id c
                  \<and> db' k = Some (result_of (questions x) c, clock e)))
       \<and> (\<forall>rs. out = Inr rs \<longrightarrow> rs = results @ map (result_of (questions x)) cs)"
  using assms
proof (induction cs arbitrary: n results db)
  case Nil
  then show ?case by auto
next
  case (Cons c cs)
  show ?case
  proof (cases "call_ok e n \<and> call_ok e (n + 1)
                \<and> res_candidateName (result_of (questions x) c) \<noteq> JUndefined
                \<and> res_phone (result_of (questions x) c) \<noteq> JUndefined")
    case False
    with Cons.prems have "out = Inl StoreError" "db' = db" by (auto split: if_splits)
    then show ?thesis by simp
  next
    case True
    let ?db1 = "db((exam_id x, cand_id c) \<mapsto> (result_of (questions x) c, clock e))"
    from True Cons.prems
    have rec: "score_candidates e x (n + 2) cs (results @ [result_of (questions x) c]) ?db1
                 = (out, db')"
      by simp
    note ih = Cons.IH [OF rec]
    have changed: "fst k = exam_id x
            \<and> (\<exists>c' \<in> set (c # cs). snd k = cand_id c'
                  \<and> db' k = Some (result_of (questions x) c', clock e))"
      if "db' k \<noteq> db k" for k
    proof (cases "db' k = ?db1 k")
      case True
      with that have "k = (exam_id x, cand_id c)" by (auto split: if_splits)
      with True show ?thesis by simp
    next
      case False
      from ih have "db' k \<noteq> ?db1 k \<longrightarrow>
            fst k = exam_id x
            \<and> (\<exists>c \<in> set cs. snd k = cand_id c
                  \<and> db' k = Some (result_of (questions x) c, clock e))"
        by (elim conjE allE [of _ k])
      with False obtain c' where "fst k = exam_id x" "c' \<in> set cs" "snd k = cand_id c'"
        "db' k = Some (result_of (questions x) c', clock e)"
        by blast
      then show ?thesis by (intro conjI bexI [of _ c']) simp_all
    qed
    from ih have listed: "\<forall>rs. out = Inr rs \<longrightarrow> rs = results @ map (result_of (questions x)) (c # cs)"
      by simp
    show ?thesis
    proof (intro conjI allI impI)
      fix k assume "db' k \<noteq> db k"
      from changed [OF this] show "fst k = exam_id x" by (rule conjunct1)
      from changed [OF \<open>db' k \<noteq> db k\<close>]
      show "\<exists>c' \<in> set (c # cs). snd k = cand_id c'
                  \<and> db' k = Some (result_of (questions x) c', clock e)" by (rule conjunct2)
    next
      fix rs assume "out = Inr rs"
      with listed show "rs = results @ map (result_of (questions x)) (c # cs)" by (elim allE impE)
    qed
  qed
qed

lemma score_candidates_total:
  assumes "\<forall>i. call_ok e i"
    and "\<forall>c \<in> set cs. candidateName (cand_doc c) \<noteq> JUndefined \<and> phone (cand_doc c) \<noteq> JUndefined"
  shows "\<exists>db'. score_candidates e x n cs results db
           = (Inr (results @ map (result_of (questions x)) cs), db')"
  using assms(2)
proof (induction cs arbitrary: n results db)
  case Nil
  show ?case by simp
next
  case (Cons c cs)
  from Cons.prems have "\<forall>c \<in> set cs. candidateName (cand_doc c) \<noteq> JUndefined
      \<and> phone (cand_doc c) \<noteq> JUndefined" by simp
  from Cons.IH [OF this, of "n + 2" "results @ [result_of (questions x) c]"]
    Cons.prems assms(1)
  show ?case by (simp add: result_of_def)
qed

lemma no_exam_today:
  assumes "\<forall>x \<in> set (Exams st). \<not> scheduled_today e x"
  shows "today_exam_results e st db =
           (if call_ok e 0 then results_not_found else results_failure, db)"
proof -
  from assms have "List.find (scheduled_today e) (Exams st) = None"
    by (simp add: find_None_iff)
  then show ?thesis by (simp add: today_exam_results_def)
qed

lemma exam_today_effect:
  assumes "List.find (scheduled_today e) (Exams st) = Some x"
  shows "(\<forall>r \<in> set (r_results (fst (today_exam_results e st db))).
            \<exists>c \<in> set (candidates st). registered_to x c \<and> r = result_of (questions x) c)
       \<and> (\<forall>k. snd (today_exam_results e st db) k \<noteq> db k \<longrightarrow>
            fst k = exam_id x
            \<and> (\<exists>c \<in> set (candidates st). registered_to x c \<and> snd k = cand_id c
                  \<and> snd (today_exam_results e st db) k
                      = Some (result_of (questions x) c, clock e)))"
proof (cases "call_ok e 0 \<and> call_ok e 1 \<and> call_ok e 2")
  case False
  with assms have "today_exam_results e st db = (results_failure, db)"
    by (auto simp: today_exam_results_def)
  then show ?thesis by (simp add: results_failure_def)
next
  case True
  let ?cs = "filter (registered_to x) (candidates st)"
  obtain out db' where loop: "score_candidates e x 3 ?cs [] db = (out, db')"
    by (cases "score_candidates e x 3 ?cs [] db")
  note eff = score_candidates_effect [OF loop]
  from True assms loop have res:
    "today_exam_results e st db =
       (case out of Inl err \<Rightarrow> results_failure
        | Inr results \<Rightarrow> \<lparr> r_status = 200, r_success = True, r_msg = [],
                    r_exam = map_option (Pair (exam_id x)) (dateTime x), r_results = results \<rparr>,
        db')"
    by (simp add: today_exam_results_def split: sum.splits)
  have listed: "\<exists>c \<in> set (candidates st). registered_to x c \<and> r = result_of (questions x) c"
    if "r \<in> set (r_results (fst (today_exam_results e st db)))" for r
  proof (cases out)
    case (Inl err)
    with res that show ?thesis by (simp add: results_failure_def)
  next
    case (Inr rs)
    with eff have "rs = map (result_of (questions x)) ?cs" by simp
    with res Inr that show ?thesis by auto
  qed
  have written: "fst k = exam_id x
            \<and> (\<exists>c \<in> set (candidates st). registered_to x c \<and> snd k = cand_id c
                  \<and> snd (today_exam_results e st db) k
                      = Some (result_of (questions x) c, clock e))"
    if "snd (today_exam_results e st db) k \<noteq> db k" for k
  proof -
    from that res have "db' k \<noteq> db k" by simp
    with eff obtain c where "fst k = exam_id x" "c \<in> set ?cs" "snd k = cand_id c"
      "db' k = Some (result_of (questions x) c, clock e)"
      by blast
    with res show ?thesis by (intro conjI bexI [of _ c]) simp_all
  qed
  show ?thesis
  proof (intro conjI ballI allI impI)
    fix r assume "r \<in> set (r_results (fst (today_exam_results e st db)))"
    then show "\<exists>c \<in> set (candidates st). registered_to x c \<and> r = result_of (questions x) c"
      by (rule listed)
  next
    fix k assume k: "snd (today_exam_results e st db) k \<noteq> db k"
    from written [OF k] show "fst k = exam_id x" by (rule conjunct1)
    from written [OF k]
    show "\<exists>c \<in> set (candidates st). registered_to x c \<and> snd k = cand_id c
                  \<and> snd (today_exam_results e st db) k
                      = Some (result_of (questions x) c, clock e)" by (rule conjunct2)
  qed
qed

lemma exam_today_total:
  assumes "List.find (scheduled_today e) (Exams st) = Some x"
    and "\<forall>i. call_ok e i"
    and "\<forall>c \<in> set (candidates st). registered_to x c \<longrightarrow>
           candidateName (cand_doc c) \<noteq> JUndefined \<and> phone (cand_doc c) \<noteq> JUndefined"
  shows "r_status (fst (today_exam_results e st db)) = 200
       \<and> r_results (fst (today_exam_results e st db))
           = map (result_of (questions x)) (filter (registered_to x) (candidates st))"
proof -
  let ?cs = "filter (registered_to x) (candidates st)"
  from assms(3) have "\<forall>c \<in> set ?cs. candidateName (cand_doc c) \<noteq> JUndefined
      \<and> phone (cand_doc c) \<noteq> JUndefined" by simp
  from score_candidates_total [OF assms(2) this, of x 3 "[]" db]
  obtain db' where "score_candidates e x 3 ?cs [] db
      = (Inr (map (result_of (questions x)) ?cs), db')" by auto
  with assms(1,2) show ?thesis by (simp add: today_exam_results_def)
qed

text \<open>
  Claim C7. When no exam's scheduled date is today's date, the operation materialises no
  result and scores no candidate, and, its read of the exams having succeeded, answers 404
  (no exam found for today). When an exam is scheduled today, the first such exam is the
  one scored: every result in the response and every result written belongs to a candidate
  registered to that exam and is that candidate's score on the exam's questions; and when
  every call to the stores succeeds and the registered candidates have a name and a phone
  number, the response is 200 with one result for each registered candidate.
\<close>

theorem today_exam_lookup:
  "((\<forall>x \<in> set (Exams st). \<not> scheduled_today e x) \<longrightarrow>
      snd (today_exam_results e st db) = db
      \<and> r_results (fst (today_exam_results e st db)) = []
      \<and> (call_ok e 0 \<longrightarrow>
           today_exam_results e st db = (results_not_found, db)
           \<and> r_status (fst (today_exam_results e st db)) = 404))
   \<and> (List.find (scheduled_today e) (Exams st) = Some x \<longrightarrow>
      (\<forall>r \<in> set (r_results (fst (today_exam_results e st db))).
          \<exists>c \<in> set (candidates st). registered_to x c \<and> r = result_of (questions x) c)
      \<and> (\<forall>k. snd (today_exam_results e st db) k \<noteq> db k \<longrightarrow>
            fst k = exam_id x
            \<and> (\<exists>c \<in> set (candidates st). registered_to x c \<and> snd k = cand_id c
                  \<and> snd (today_exam_results e st db) k
                      = Some (result_of (questions x) c, clock e)))
      \<and> ((\<forall>i. call_ok e i)
          \<and> (\<forall>c \<in> set (candidates st). registered_to x c \<longrightarrow>
                candidateName (cand_doc c) \<noteq> JUndefined \<and> phone (cand_doc c) \<noteq> JUndefined) \<longrightarrow>
          r_status (fst (today_exam_results e st db)) = 200
          \<and> r_results (fst (today_exam_results e st db))
              = map (result_of (questions x)) (filter (registered_to x) (candidates st))))"
proof (intro conjI impI)
  assume none: "\<forall>x \<in> set (Exams st). \<not> scheduled_today e x"
  from no_exam_today [OF none, of db]
  show "snd (today_exam_results e st db) = db" by simp
  from no_exam_today [OF none, of db]
  show "r_results (fst (today_exam_results e st db)) = []"
    by (simp add: results_not_found_def results_failure_def)
  assume "call_ok e 0"
  with no_exam_today [OF none, of db]
  show "today_exam_results e st db = (results_not_found, db)" by simp
  then show "r_status (fst (today_exam_results e st db)) = 404"
    by (simp add: results_not_found_def)
next
  assume found: "List.find (scheduled_today e) (Exams st) = Some x"
  from exam_today_effect [OF found, of db]
  show "\<forall>r \<in> set (r_results (fst (today_exam_results e st db))).
          \<exists>c \<in> set (candidates st). registered_to x c \<and> r = result_of (questions x) c"
    by (rule conjunct1)
  from exam_today_effect [OF found, of db]
  show "\<forall>k. snd (today_exam_results e st db) k \<noteq> db k \<longrightarrow>
            fst k = exam_id x
            \<and> (\<exists>c \<in> set (candidates st). registered_to x c \<and> snd k = cand_id c
                  \<and> snd (today_exam_results e st db) k
                      = Some (result_of (questions x) c, clock e))"
    by (rule conjunct2)
  assume "(\<forall>i. call_ok e i)
          \<and> (\<forall>c \<in> set (candidates st). registered_to x c \<longrightarrow>
                candidateName (cand_doc c) \<noteq> JUndefined \<and> phone (cand_doc c) \<noteq> JUndefined)"
  then have ok: "\<forall>i. call_ok e i"
    and named: "\<forall>c \<in> set (candidates st). registered_to x c \<longrightarrow>
                candidateName (cand_doc c) \<noteq> JUndefined \<and> phone (cand_doc c) \<noteq> JUndefined"
    by simp_all
  from exam_today_total [OF found ok named, of db]
  show "r_status (fst (today_exam_results e st db)) = 200" by (rule conjunct1)
  from exam_today_total [OF found ok named, of db]
  show "r_results (fst (today_exam_results e st db))
              = map (result_of (questions x)) (filter (registered_to x) (candidates st))"
    by (rule conjunct2)
qed

theorem today_exam_lookup_witness:
  "today_exam_results (example_day ''2025-03-02'') example_exams Map.empty
     = (results_not_found, Map.empty)
   \<and> r_status (fst (today_exam_results (example_day ''2025-03-01'') example_exams Map.empty)) = 200
   \<and> r_results (fst (today_exam_results (example_day ''2025-03-01'') example_exams Map.empty))
       = [\<lparr> registrationNumber = ''REG1'', res_candidateName = JStr ''Asha'',
            res_phone = JStr ''9000000000'',
            res_counts = \<lparr> totalQuestions = 1, correctAnswers = 1, skippedQuestions = 0,
                            wrongAnswers = 0 \<rparr> \<rparr>]"
proof -
  have none: "\<forall>x \<in> set (Exams example_exams). \<not> scheduled_today (example_day ''2025-03-02'') x"
    by (simp add: example_exams_def example_day_def scheduled_today_def)
  have read: "call_ok (example_day ''2025-03-02'') 0"
    by (simp add: example_day_def)
  from today_exam_lookup [where st = example_exams and e = "example_day ''2025-03-02''"
      and db = Map.empty] none read
  have not_found: "today_exam_results (example_day ''2025-03-02'') example_exams Map.empty
     = (results_not_found, Map.empty)"
    by blast
  let ?math = "hd (Exams example_exams)"
  have found: "List.find (scheduled_today (example_day ''2025-03-01'')) (Exams example_exams)
      = Some ?math"
    by (simp add: example_exams_def example_day_def scheduled_today_def)
  have calls: "(\<forall>i. call_ok (example_day ''2025-03-01'') i)
      \<and> (\<forall>c \<in> set (candidates example_exams). registered_to ?math c \<longrightarrow>
            candidateName (cand_doc c) \<noteq> JUndefined \<and> phone (cand_doc c) \<noteq> JUndefined)"
    by (simp add: example_exams_def example_day_def)
  from today_exam_lookup [where st = example_exams and e = "example_day ''2025-03-01''"
      and db = Map.empty and x = ?math] found calls
  have scored: "r_status (fst (today_exam_results (example_day ''2025-03-01'') example_exams
                    Map.empty)) = 200
      \<and> r_results (fst (today_exam_results (example_day ''2025-03-01'') example_exams Map.empty))
          = map (result_of (questions ?math)) (filter (registered_to ?math) (candidates example_exams))"
    by blast
  have "map (result_of (questions ?math)) (filter (registered_to ?math) (candidates example_exams))
      = [\<lparr> registrationNumber = ''REG1'', res_candidateName = JStr ''Asha'',
            res_phone = JStr ''9000000000'',
            res_counts = \<lparr> totalQuestions = 1, correctAnswers = 1, skippedQuestions = 0,
                            wrongAnswers = 0 \<rparr> \<rparr>]"
    by (simp add: example_exams_def registered_to_def result_of_def score_def score_loop_def
        score_question_def find_answer_def)
  with scored not_found show ?thesis by simp
qed

section \<open>Payment verification\<close>

text \<open>
  Claim C9. Payment verification recomputes the HMAC-SHA256 signature of the string
  \<^verbatim>\<open>orderId + "|" + paymentId\<close> under the shared secret and compares it with the
  signature the request supplies. When the three parameters are present and the two
  signatures differ, the operation answers 400 (invalid payment signature) and makes no call
  to the gateway; and whenever the operation does call the gateway, fetching the payment or
  the order, the supplied signature is the recomputed one.
\<close>

theorem payment_signature_checked:
  "(\<not> nullish body \<and> truthy (js_prop body ''orderId'') \<and> truthy (js_prop body ''paymentId'')
      \<and> truthy (js_prop body ''signature'') \<and> key_secret pe = Some k
      \<and> \<not> strict_eq
            (JStr (hmac_sha256_hex pe k
                     (signed_text (js_prop body ''orderId'') (js_prop body ''paymentId''))))
            (js_prop body ''signature'') \<longrightarrow>
      verify_payment pe body = (reply 400 False ''Invalid payment signature'', []))
   \<and> (snd (verify_payment pe body) \<noteq> [] \<longrightarrow>
      (\<exists>k'. key_secret pe = Some k'
         \<and> js_prop body ''signature''
             = JStr (hmac_sha256_hex pe k'
                      (signed_text (js_prop body ''orderId'') (js_prop body ''paymentId'')))))
   \<and> signed_text (JStr oid) (JStr pid) = oid @ ''|'' @ pid"
proof (intro conjI impI)
  assume "\<not> nullish body \<and> truthy (js_prop body ''orderId'') \<and> truthy (js_prop body ''paymentId'')
      \<and> truthy (js_prop body ''signature'') \<and> key_secret pe = Some k
      \<and> \<not> strict_eq
            (JStr (hmac_sha256_hex pe k
                     (signed_text (js_prop body ''orderId'') (js_prop body ''paymentId''))))
            (js_prop body ''signature'')"
  then show "verify_payment pe body = (reply 400 False ''Invalid payment signature'', [])"
    by (simp add: verify_payment_def)
next
  assume calls: "snd (verify_payment pe body) \<noteq> []"
  show "\<exists>k'. key_secret pe = Some k'
         \<and> js_prop body ''signature''
             = JStr (hmac_sha256_hex pe k'
                      (signed_text (js_prop body ''orderId'') (js_prop body ''paymentId'')))"
  proof (cases "key_secret pe")
    case None
    with calls show ?thesis by (simp add: verify_payment_def split: if_splits)
  next
    case (Some k')
    have "strict_eq
            (JStr (hmac_sha256_hex pe k'
                     (signed_text (js_prop body ''orderId'') (js_prop body ''paymentId''))))
            (js_prop body ''signature'')"
    proof (rule ccontr)
      assume "\<not> ?thesis"
      with Some calls show False by (simp add: verify_payment_def split: if_splits)
    qed
    then have "js_prop body ''signature''
             = JStr (hmac_sha256_hex pe k'
                      (signed_text (js_prop body ''orderId'') (js_prop body ''paymentId'')))"
      by (cases "js_prop body ''signature''") simp_all
    with Some show ?thesis by simp
  qed
next
  show "signed_text (JStr oid) (JStr pid) = oid @ ''|'' @ pid"
    by (simp add: signed_text_def)
qed

theorem payment_signature_checked_witness:
  "verify_payment example_gateway (example_payment ''forged'')
     = (reply 400 False ''Invalid payment signature'', [])
   \<and> verify_payment example_gateway (example_payment ''secretorder_1|pay_1'')
     = (reply 200 True [], [PaymentsFetch (JStr ''pay_1''), OrdersFetch (JStr ''order_1'')])"
proof -
  have forged: "\<not> nullish (example_payment ''forged'')
      \<and> truthy (js_prop (example_payment ''forged'') ''orderId'')
      \<and> truthy (js_prop (example_payment ''forged'') ''paymentId'')
      \<and> truthy (js_prop (example_payment ''forged'') ''signature'')
      \<and> key_secret example_gateway = Some ''secret''
      \<and> \<not> strict_eq
            (JStr (hmac_sha256_hex example_gateway ''secret''
                     (signed_text (js_prop (example_payment ''forged'') ''orderId'')
                        (js_prop (example_payment ''forged'') ''paymentId''))))
            (js_prop (example_payment ''forged'') ''signature'')"
    by (simp add: example_gateway_def example_payment_def nullish_def signed_text_def)
  from payment_signature_checked [of "example_payment ''forged''" example_gateway "''secret''"]
    forged
  have rejected: "verify_payment example_gateway (example_payment ''forged'')
     = (reply 400 False ''Invalid payment signature'', [])"
    by blast
  have called: "verify_payment example_gateway (example_payment ''secretorder_1|pay_1'')
     = (reply 200 True [], [PaymentsFetch (JStr ''pay_1''), OrdersFetch (JStr ''order_1'')])"
    by (simp add: verify_payment_def example_gateway_def example_payment_def nullish_def
        signed_text_def check_payment_def)
  from rejected called show ?thesis by (rule conjI)
qed

end
